theory Spec2Isabelle
  imports Complex_Main
begin

section \<open>The player controller of \<open>src/src/player.tsx\<close>\<close>

text \<open>
  The component \<open>Player\<close> keeps its state in React state cells and refs, and mutates two
  scene objects: the camera and the player's group. The model gathers all of them in one
  record, turns every event handler and the frame callback into a function from state to
  state, and runs the aim-camera effect after an event whenever one of the effect's
  dependencies has changed, as React does after the render the event caused. An updater
  function passed to a state setter is taken to run once, at the render that follows; when
  it throws, the error is recorded in the state and the cell keeps its last value. What
  React does with the component after such an error is not modelled.

  JavaScript numbers are modelled as \<open>real\<close>: every arithmetic operation is the exact one,
  without rounding. Calls into three.js whose code is not part of the repository (bounding
  boxes, ray casting, quaternions, \<open>lookAt\<close>) are parameters, gathered in the record
  \<open>env\<close>. The limb, body and gun poses and the recoil animation are written by the frame
  callback and read by nothing modelled here; they are left out.
\<close>

subsection \<open>Vectors, poses, bullets\<close>

record vec3 =
  vx :: real
  vy :: real
  vz :: real

record euler =
  ex :: real
  ey :: real
  ez :: real

text \<open>The camera's position and rotation; also the shape of \<open>savedCameraState.current\<close>.\<close>

record pose =
  position :: vec3
  rotation :: euler

text \<open>\<open>interface Bullet\<close>, lines 15 to 21.\<close>

record bullet =
  bullet_id :: nat
  bullet_position :: vec3
  direction :: vec3
  velocity :: real
  lifespan :: real

definition vec :: "real \<Rightarrow> real \<Rightarrow> real \<Rightarrow> vec3" where
  "vec a b c = \<lparr>vx = a, vy = b, vz = c\<rparr>"

definition add :: "vec3 \<Rightarrow> vec3 \<Rightarrow> vec3" where
  "add u v = \<lparr>vx = vx u + vx v, vy = vy u + vy v, vz = vz u + vz v\<rparr>"

definition multiplyScalar :: "vec3 \<Rightarrow> real \<Rightarrow> vec3" where
  "multiplyScalar v k = \<lparr>vx = vx v * k, vy = vy v * k, vz = vz v * k\<rparr>"

definition vlength :: "vec3 \<Rightarrow> real" where
  "vlength v = sqrt (vx v * vx v + vy v * vy v + vz v * vz v)"

text \<open>\<open>Vector3.normalize\<close> divides by \<open>length() || 1\<close>: the zero vector stays zero.\<close>

definition normalize :: "vec3 \<Rightarrow> vec3" where
  "normalize v = multiplyScalar v (1 / (if vlength v = 0 then 1 else vlength v))"

definition crossVectors :: "vec3 \<Rightarrow> vec3 \<Rightarrow> vec3" where
  "crossVectors a b =
     \<lparr>vx = vy a * vz b - vz a * vy b,
      vy = vz a * vx b - vx a * vz b,
      vz = vx a * vy b - vy a * vx b\<rparr>"

definition dot :: "vec3 \<Rightarrow> vec3 \<Rightarrow> real" where
  "dot u v = vx u * vx v + vy u * vy v + vz u * vz v"

text \<open>\<open>Vector3.lerp (v, alpha)\<close>: \<open>this += (v - this) * alpha\<close>, componentwise.\<close>

definition lerp :: "vec3 \<Rightarrow> vec3 \<Rightarrow> real \<Rightarrow> vec3" where
  "lerp c t alpha =
     \<lparr>vx = vx c + (vx t - vx c) * alpha,
      vy = vy c + (vy t - vy c) * alpha,
      vz = vz c + (vz t - vz c) * alpha\<rparr>"

subsection \<open>The component's state\<close>

text \<open>The \<open>keys\<close> state cell, lines 61 to 68.\<close>

record keys =
  w :: bool
  a :: bool
  s :: bool
  d :: bool
  space :: bool
  shift :: bool

text \<open>
  What the code reads and writes of the player's group: its position and \<open>rotation.y\<close>.
\<close>

record playerGroup =
  group_position :: vec3
  group_rotation_y :: real

text \<open>The exception three.js raises when it is handed a null object.\<close>

datatype error = TypeError

text \<open>
  The state cells and refs of the component, the camera object, the player's group
  (\<open>None\<close> while \<open>playerRef.current\<close> is null), the number of calls made to the
  \<open>onBossHit\<close> callback so far, and the error of a render that failed, if any.
\<close>

record state =
  keys :: keys
  bullets :: "bullet list"
  bulletId :: nat
  isAiming :: bool
  isFiring :: bool
  lastFireTime :: real
  savedCameraState :: "pose option"
  isMouseDown :: bool
  mouseX :: real
  mouseY :: real
  rotationX :: real
  rotationY :: real
  initialRotationSet :: bool
  isJumping :: bool
  jumpVelocity :: real
  isCrouching :: bool
  originalCameraPositionY :: real
  cameraDistance :: real
  cameraTargetPosition :: vec3
  cameraCurrentPosition :: vec3
  camera :: pose
  player :: "playerGroup option"
  bossHits :: nat
  renderError :: "error option"

text \<open>The constants of lines 79 and 102 to 116.\<close>

definition fireRate :: real where "fireRate = 100"
definition jumpForce :: real where "jumpForce = 0.3"
definition gravity :: real where "gravity = 0.015"
definition crouchSpeedMultiplier :: real where "crouchSpeedMultiplier = 0.5"
definition normalSpeed :: real where "normalSpeed = 0.1"
definition crouchHeight :: real where "crouchHeight = 0.5"
definition minCameraDistance :: real where "minCameraDistance = 3"
definition maxCameraDistance :: real where "maxCameraDistance = 8"
definition cameraHeight :: real where "cameraHeight = 1.5"
definition cameraSmoothing :: real where "cameraSmoothing = 0.1"

text \<open>
  The state after mounting with the prop \<open>position\<close> and the host's camera: the initial
  values of the \<open>useState\<close> and \<open>useRef\<close> calls, the group placed at \<open>position\<close>.
\<close>

definition initialState :: "vec3 \<Rightarrow> pose \<Rightarrow> state" where
  "initialState p cam =
     \<lparr>keys = \<lparr>w = False, a = False, s = False, d = False, space = False, shift = False\<rparr>,
      bullets = [],
      bulletId = 0,
      isAiming = False,
      isFiring = False,
      lastFireTime = 0,
      savedCameraState = None,
      isMouseDown = False,
      mouseX = 0,
      mouseY = 0,
      rotationX = 0,
      rotationY = 0,
      initialRotationSet = False,
      isJumping = False,
      jumpVelocity = 0,
      isCrouching = False,
      originalCameraPositionY = 0,
      cameraDistance = 5,
      cameraTargetPosition = vec 0 0 0,
      cameraCurrentPosition = vec 0 0 0,
      camera = cam,
      player = Some \<lparr>group_position = p, group_rotation_y = 0\<rparr>,
      bossHits = 0,
      renderError = None\<rparr>"

subsection \<open>Event handlers, lines 138 to 245\<close>

text \<open>
  The handlers are sequences of independent \<open>if\<close> statements. \<open>applyIf c f\<close> is one such
  statement; \<open>setKeys\<close> and \<open>setCameraDistance\<close> are the state setters called with an
  updater function (\<open>prev => ...\<close>). Conditions and values read outside an updater are
  those of the render the handler was created in, that is of the state before the event.
\<close>

definition applyIf :: "bool \<Rightarrow> (state \<Rightarrow> state) \<Rightarrow> state \<Rightarrow> state" where
  "applyIf c f st = (if c then f st else st)"

definition setKeys :: "(keys \<Rightarrow> keys) \<Rightarrow> state \<Rightarrow> state" where
  "setKeys f st = st\<lparr>keys := f (keys st)\<rparr>"

definition setCameraDistance :: "(real \<Rightarrow> real) \<Rightarrow> state \<Rightarrow> state" where
  "setCameraDistance f st = st\<lparr>cameraDistance := f (cameraDistance st)\<rparr>"

definition handleKeyDown :: "string \<Rightarrow> state \<Rightarrow> state" where
  "handleKeyDown key st =
     (let s1 = applyIf (key = ''w'') (setKeys (\<lambda>prev. prev\<lparr>w := True\<rparr>)) st;
          s2 = applyIf (key = ''a'') (setKeys (\<lambda>prev. prev\<lparr>a := True\<rparr>)) s1;
          s3 = applyIf (key = ''s'') (setKeys (\<lambda>prev. prev\<lparr>s := True\<rparr>)) s2;
          s4 = applyIf (key = ''d'') (setKeys (\<lambda>prev. prev\<lparr>d := True\<rparr>)) s3;
          s5 = applyIf (key = '' '' \<and> \<not> isJumping st)
                 (\<lambda>u. (setKeys (\<lambda>prev. prev\<lparr>space := True\<rparr>) u)
                        \<lparr>isJumping := True, jumpVelocity := jumpForce\<rparr>) s4;
          s6 = applyIf (key = ''Shift'')
                 (\<lambda>u. applyIf (\<not> isCrouching st \<and> isAiming st)
                         (\<lambda>v. v\<lparr>originalCameraPositionY := vy (position (camera st))\<rparr>)
                         ((setKeys (\<lambda>prev. prev\<lparr>shift := True\<rparr>) u)\<lparr>isCrouching := True\<rparr>)) s5;
          s7 = applyIf (key = ''='' \<or> key = ''+'')
                 (setCameraDistance (\<lambda>prev. max minCameraDistance (prev - 0.5))) s6;
          s8 = applyIf (key = ''-'' \<or> key = ''_'')
                 (setCameraDistance (\<lambda>prev. min maxCameraDistance (prev + 0.5))) s7
      in s8)"

definition handleKeyUp :: "string \<Rightarrow> state \<Rightarrow> state" where
  "handleKeyUp key st =
     (let s1 = applyIf (key = ''w'') (setKeys (\<lambda>prev. prev\<lparr>w := False\<rparr>)) st;
          s2 = applyIf (key = ''a'') (setKeys (\<lambda>prev. prev\<lparr>a := False\<rparr>)) s1;
          s3 = applyIf (key = ''s'') (setKeys (\<lambda>prev. prev\<lparr>s := False\<rparr>)) s2;
          s4 = applyIf (key = ''d'') (setKeys (\<lambda>prev. prev\<lparr>d := False\<rparr>)) s3;
          s5 = applyIf (key = '' '') (setKeys (\<lambda>prev. prev\<lparr>space := False\<rparr>)) s4;
          s6 = applyIf (key = ''Shift'')
                 (\<lambda>u. (setKeys (\<lambda>prev. prev\<lparr>shift := False\<rparr>) u)\<lparr>isCrouching := False\<rparr>) s5
      in s6)"

text \<open>
  \<open>handleMouseDown\<close>: button 0 is the left button (fire, and start tracking the mouse),
  button 2 the right one (aim). The right button saves the camera's pose and sets
  \<open>isAiming\<close>, whatever \<open>isAiming\<close> was.
\<close>

definition handleMouseDown :: "int \<Rightarrow> real \<Rightarrow> real \<Rightarrow> state \<Rightarrow> state" where
  "handleMouseDown button clientX clientY st =
     (let s1 = (if button = 0 then st\<lparr>isFiring := True\<rparr>
                else if button = 2
                then st\<lparr>savedCameraState := Some (camera st), isAiming := True\<rparr>
                else st);
          s2 = (if button = 0
                then s1\<lparr>isMouseDown := True, mouseX := clientX, mouseY := clientY\<rparr>
                else s1)
      in s2)"

definition handleMouseUp :: "int \<Rightarrow> state \<Rightarrow> state" where
  "handleMouseUp button st =
     (let s1 = (if button = 0 then st\<lparr>isFiring := False\<rparr>
                else if button = 2 then st\<lparr>isAiming := False\<rparr>
                else st);
          s2 = (if button = 0 then s1\<lparr>isMouseDown := False\<rparr> else s1)
      in s2)"

definition handleMouseMove :: "real \<Rightarrow> real \<Rightarrow> state \<Rightarrow> state" where
  "handleMouseMove clientX clientY st =
     (if isMouseDown st
      then (let deltaX = clientX - mouseX st;
                deltaY = clientY - mouseY st
            in st\<lparr>rotationY := rotationY st - deltaX * 0.01,
                   rotationX := max (- pi / 2) (min (pi / 2) (rotationX st - deltaY * 0.01)),
                   mouseX := clientX,
                   mouseY := clientY\<rparr>)
      else st)"

definition handleWheel :: "real \<Rightarrow> state \<Rightarrow> state" where
  "handleWheel deltaY st =
     (if \<not> isAiming st
      then (let delta = (if deltaY > 0 then 0.5 else - 0.5)
            in setCameraDistance
                 (\<lambda>prev. max minCameraDistance (min maxCameraDistance (prev + delta))) st)
      else st)"

subsection \<open>The aim-camera effect, lines 276 to 295\<close>

definition aimCameraEffect :: "state \<Rightarrow> state" where
  "aimCameraEffect st =
     (case (if isAiming st then player st else None) of
        Some g \<Rightarrow>
          (let headPosition = add (group_position g) (vec 0 0.9 0);
               cam = camera st;
               p = (if isCrouching st \<and> originalCameraPositionY st \<noteq> 0
                    then (position cam)\<lparr>vy := originalCameraPositionY st - crouchHeight\<rparr>
                    else headPosition)
           in st\<lparr>camera :=
                   \<lparr>position = p,
                    rotation = \<lparr>ex = rotationX st, ey = rotationY st, ez = 0\<rparr>\<rparr>\<rparr>)
      | None \<Rightarrow>
          (if \<not> isAiming st
           then (case savedCameraState st of
                   Some saved \<Rightarrow> st\<lparr>camera := saved, savedCameraState := None\<rparr>
                 | None \<Rightarrow> st)
           else st))"

subsection \<open>What the frame callback asks of three.js and of its props\<close>

text \<open>
  \<open>'o\<close> is the type of scene objects (meshes), compared by identity in the source.
  \<^item> \<open>bossRef\<close> is \<open>bossRef?.current\<close>, \<open>walls\<close> the \<open>current\<close> of every wall ref in
    registration order (\<open>None\<close> for a ref whose \<open>current\<close> is null);
  \<^item> \<open>onBossHit\<close> tells whether the optional callback prop was supplied;
  \<^item> \<open>containsPoint m p\<close> is \<open>new Box3().setFromObject(m).containsPoint(p)\<close>;
  \<^item> \<open>intersectObjects origin dir targets\<close> is the list of the \<open>object\<close> fields of
    \<open>raycaster.intersectObjects(targets, true)\<close>, nearest first, for the ray set to
    \<open>origin\<close> and \<open>dir\<close> with \<open>far = 0.2\<close> and targets that are all objects; the cast is
    recursive, so the objects it returns are targets or descendants of targets;
  \<^item> \<open>belongsTo obj m\<close> tells whether \<open>obj\<close> is \<open>m\<close> or one of its descendants in the
    scene graph;
  \<^item> \<open>initialPosition\<close> is the prop \<open>position\<close>;
  \<^item> \<open>forwardOf ry\<close> is \<open>new Vector3(0, 0, -1).applyQuaternion(q)\<close> for the quaternion
    \<open>q\<close> of the player's group when its \<open>rotation.y\<close> is \<open>ry\<close>, and \<open>cameraForward r\<close>
    the same for the camera with rotation \<open>r\<close>;
  \<^item> \<open>gunWorldPosition g\<close> is \<open>gunRef.current.getWorldPosition\<close> for the group \<open>g\<close>,
    \<open>None\<close> when \<open>gunRef.current\<close> is null;
  \<^item> \<open>lookAt p t\<close> is the camera's rotation after \<open>camera.lookAt(t)\<close> from position \<open>p\<close>.
\<close>

record 'o env =
  bossRef :: "'o option"
  walls :: "'o option list"
  onBossHit :: bool
  containsPoint :: "'o \<Rightarrow> vec3 \<Rightarrow> bool"
  intersectObjects :: "vec3 \<Rightarrow> vec3 \<Rightarrow> 'o list \<Rightarrow> 'o list"
  belongsTo :: "'o \<Rightarrow> 'o \<Rightarrow> bool"
  initialPosition :: vec3
  forwardOf :: "real \<Rightarrow> vec3"
  cameraForward :: "euler \<Rightarrow> vec3"
  gunWorldPosition :: "playerGroup \<Rightarrow> vec3 option"
  lookAt :: "vec3 \<Rightarrow> vec3 \<Rightarrow> euler"

subsection \<open>\<open>checkBulletCollision\<close>, lines 298 to 342\<close>

text \<open>\<open>if (onBossHit) onBossHit()\<close>, on the counter of calls.\<close>

definition notifyBossHit :: "'o env \<Rightarrow> nat \<Rightarrow> nat" where
  "notifyBossHit env n = (if onBossHit env then Suc n else n)"

text \<open>
  The loop over \<open>walls\<close>: a ref whose \<open>current\<close> is null is skipped, the first wall whose
  box contains the point ends the loop.
\<close>

fun wallContains :: "'o env \<Rightarrow> 'o option list \<Rightarrow> vec3 \<Rightarrow> bool" where
  "wallContains env [] p = False"
| "wallContains env (r # rs) p =
     (case r of
        Some m \<Rightarrow> (if containsPoint env m p then True else wallContains env rs p)
      | None \<Rightarrow> wallContains env rs p)"

text \<open>
  The result is what the call does (the boolean it returns, or the exception it raises)
  and the counter of \<open>onBossHit\<close> calls.

  In the ray step the wall refs are typed \<open>RefObject<Mesh>\<close>, so \<open>ref?.current\<close> is a
  mesh or null, never \<open>undefined\<close>: the filter \<open>mesh !== undefined\<close> of line 325 keeps every
  entry, null ones included, and \<open>raycaster.intersectObjects\<close> raises a \<open>TypeError\<close> when
  it reaches a null entry (it reads the field \<open>layers\<close> of each target).
\<close>

definition checkBulletCollision :: "'o env \<Rightarrow> bullet \<Rightarrow> nat \<Rightarrow> (error + bool) \<times> nat" where
  "checkBulletCollision env b n =
     (if (case bossRef env of
            Some m \<Rightarrow> containsPoint env m (bullet_position b)
          | None \<Rightarrow> False)
      then (Inr True, notifyBossHit env n)
      else if wallContains env (walls env) (bullet_position b) then (Inr True, n)
      else (let wallMeshes = walls env;
                bossMeshes = (case bossRef env of Some m \<Rightarrow> [m] | None \<Rightarrow> [])
            in if list_ex (\<lambda>r. r = None) wallMeshes then (Inl TypeError, n)
               else (let allTargets = map the wallMeshes @ bossMeshes;
                         intersects = intersectObjects env (bullet_position b) (direction b)
                                        allTargets
                     in case intersects of
                          [] \<Rightarrow> (Inr False, n)
                        | obj # _ \<Rightarrow>
                            (Inr True,
                             if bossRef env = Some obj then notifyBossHit env n else n))))"

subsection \<open>The frame callback, lines 345 to 583\<close>

text \<open>
  The callback of \<open>prev.map\<close> at lines 520 to 542: \<open>None\<close> is the source's \<open>null\<close>. An
  exception of either collision test leaves the callback at once.
\<close>

definition updateBullet ::
  "'o env \<Rightarrow> real \<Rightarrow> bullet \<Rightarrow> nat \<Rightarrow> (error + bullet option) \<times> nat" where
  "updateBullet env delta b n =
     (case checkBulletCollision env b n of
        (Inl e, n1) \<Rightarrow> (Inl e, n1)
      | (Inr True, n1) \<Rightarrow> (Inr None, n1)
      | (Inr False, n1) \<Rightarrow>
          (let newPos = add (bullet_position b)
                          (multiplyScalar (direction b) (velocity b * delta));
               updatedBullet = b\<lparr>bullet_position := newPos, lifespan := lifespan b - delta\<rparr>
           in case checkBulletCollision env updatedBullet n1 of
                (Inl e, n2) \<Rightarrow> (Inl e, n2)
              | (Inr True, n2) \<Rightarrow> (Inr None, n2)
              | (Inr False, n2) \<Rightarrow> (Inr (Some updatedBullet), n2)))"

text \<open>\<open>prev.map\<close>, bullet by bullet: an exception ends it, the calls made so far stay made.\<close>

fun mapBullets ::
  "'o env \<Rightarrow> real \<Rightarrow> bullet list \<Rightarrow> nat \<Rightarrow> (error + bullet option list) \<times> nat" where
  "mapBullets env delta [] n = (Inr [], n)"
| "mapBullets env delta (b # bs) n =
     (case updateBullet env delta b n of
        (Inl e, n1) \<Rightarrow> (Inl e, n1)
      | (Inr r, n1) \<Rightarrow>
          (case mapBullets env delta bs n1 of
             (Inl e, n2) \<Rightarrow> (Inl e, n2)
           | (Inr rs, n2) \<Rightarrow> (Inr (r # rs), n2)))"

text \<open>The predicate of \<open>.filter\<close> at line 543.\<close>

definition live :: "bullet option \<Rightarrow> bool" where
  "live r = (case r of None \<Rightarrow> False | Some b \<Rightarrow> lifespan b > 0)"

text \<open>The updater of lines 518 to 544.\<close>

definition updateBullets ::
  "'o env \<Rightarrow> real \<Rightarrow> bullet list \<Rightarrow> nat \<Rightarrow> (error + bullet list) \<times> nat" where
  "updateBullets env delta prev n =
     (case mapBullets env delta prev n of
        (Inl e, n') \<Rightarrow> (Inl e, n')
      | (Inr rs, n') \<Rightarrow> (Inr (map the (filter live rs)), n'))"

text \<open>
  The render after a frame runs the updaters queued for \<open>bullets\<close>: the one of lines
  518 to 544, whose result is \<open>res\<close>, then the one of lines 572 to 581 that appends the
  bullets \<open>spawned\<close>. When the first raises, the render fails and \<open>bullets\<close> keeps its
  value.
\<close>

definition commitBullets :: "error + bullet list \<Rightarrow> bullet list \<Rightarrow> state \<Rightarrow> state" where
  "commitBullets res spawned st =
     (case res of
        Inr bs \<Rightarrow> st\<lparr>bullets := bs @ spawned\<rparr>
      | Inl e \<Rightarrow> st\<lparr>renderError := Some e\<rparr>)"

text \<open>Line 362.\<close>

definition speed :: "state \<Rightarrow> real" where
  "speed st = (if isCrouching st then normalSpeed * crouchSpeedMultiplier else normalSpeed)"

text \<open>\<open>getPlayerForward\<close>, lines 127 to 134, for a group that is present.\<close>

definition getPlayerForward :: "'o env \<Rightarrow> playerGroup \<Rightarrow> vec3" where
  "getPlayerForward env g = normalize (forwardOf env (group_rotation_y g))"

text \<open>Lines 356 to 359: on the first frame the group takes the yaw of the state.\<close>

definition initRotation :: "state \<Rightarrow> playerGroup \<Rightarrow> playerGroup" where
  "initRotation st g =
     (if \<not> initialRotationSet st then g\<lparr>group_rotation_y := rotationY st\<rparr> else g)"

text \<open>Lines 362 to 378: the speed, the two axes, then the four directional keys.\<close>

definition moveStep :: "'o env \<Rightarrow> state \<Rightarrow> playerGroup \<Rightarrow> playerGroup" where
  "moveStep env st g =
     (let g0 = initRotation st g;
          forward = getPlayerForward env g0;
          right = normalize (crossVectors (vec 0 1 0) forward);
          p0 = group_position g0;
          p1 = (if w (keys st) then add p0 (multiplyScalar forward (speed st)) else p0);
          p2 = (if s (keys st) then add p1 (multiplyScalar forward (- speed st)) else p1);
          p3 = (if a (keys st) then add p2 (multiplyScalar right (- speed st)) else p2);
          p4 = (if d (keys st) then add p3 (multiplyScalar right (speed st)) else p3)
      in g0\<lparr>group_position := p4\<rparr>)"

text \<open>
  Lines 381 to 392. \<open>jumpVelocity\<close> is the value of the last render throughout: the
  position moves by the velocity of before the tick, and of the two \<open>setJumpVelocity\<close>
  calls the later one wins.
\<close>

definition jumpStep :: "'o env \<Rightarrow> state \<Rightarrow> playerGroup \<Rightarrow> playerGroup \<times> bool \<times> real" where
  "jumpStep env st g =
     (if isJumping st
      then (let y1 = vy (group_position g) + jumpVelocity st
            in if y1 \<le> vy (initialPosition env)
               then (g\<lparr>group_position := (group_position g)\<lparr>vy := vy (initialPosition env)\<rparr>\<rparr>,
                     False, 0)
               else (g\<lparr>group_position := (group_position g)\<lparr>vy := y1\<rparr>\<rparr>,
                     True, jumpVelocity st - gravity))
      else (g, isJumping st, jumpVelocity st))"

text \<open>
  Lines 430 to 453: the camera. The result is the camera's pose and the two smoothing refs.
\<close>

definition cameraStep :: "'o env \<Rightarrow> state \<Rightarrow> playerGroup \<Rightarrow> pose \<times> vec3 \<times> vec3" where
  "cameraStep env st g =
     (if isAiming st
      then ((camera st)\<lparr>rotation := (rotation (camera st))\<lparr>ex := rotationX st\<rparr>\<rparr>,
            cameraTargetPosition st, cameraCurrentPosition st)
      else (let targetPosition = group_position g;
                offset = \<lparr>vx = sin (rotationY st) * cameraDistance st,
                          vy = cameraHeight + (if isCrouching st then - crouchHeight / 2 else 0),
                          vz = cos (rotationY st) * cameraDistance st\<rparr>;
                target = add targetPosition offset;
                current = lerp (cameraCurrentPosition st) target cameraSmoothing
            in (\<lparr>position = current, rotation = lookAt env current targetPosition\<rparr>,
                target, current)))"

text \<open>
  Lines 552 to 581: the bullet a shot creates, from the camera when aiming, else from the
  gun's muzzle (the camera's position when there is no gun) along the player's forward
  vector.
\<close>

definition newBullet :: "'o env \<Rightarrow> state \<Rightarrow> pose \<Rightarrow> playerGroup \<Rightarrow> bullet" where
  "newBullet env st cam g =
     (let worldPosition =
            (if isAiming st then position cam
             else (case gunWorldPosition env g of
                     Some p \<Rightarrow> p
                   | None \<Rightarrow> position cam));
          dir = (if isAiming st then cameraForward env (rotation cam)
                 else getPlayerForward env g)
      in \<lparr>bullet_id = bulletId st,
          bullet_position = worldPosition,
          direction = dir,
          velocity = 20,
          lifespan = 1.5\<rparr>)"

text \<open>
  The whole callback with \<open>delta\<close> the frame's elapsed time and \<open>now\<close> the value of
  \<open>performance.now()\<close>, and the render it causes. Without a group it returns at line 353.
  The refs \<open>lastFireTime\<close> and \<open>bulletId\<close> are written by the callback itself, whatever
  the render does.
\<close>

definition tick :: "'o env \<Rightarrow> real \<Rightarrow> real \<Rightarrow> state \<Rightarrow> state" where
  "tick env delta now st =
     (case player st of
        None \<Rightarrow> st
      | Some g \<Rightarrow>
          (let g1 = moveStep env st g;
               (g2, jumping, jv) = jumpStep env st g1;
               g3 = g2\<lparr>group_rotation_y := rotationY st\<rparr>;
               (cam, target, current) = cameraStep env st g3;
               (res, hits) = updateBullets env delta (bullets st) (bossHits st);
               st1 = st\<lparr>initialRotationSet := True,
                        isJumping := jumping,
                        jumpVelocity := jv,
                        player := Some g3,
                        camera := cam,
                        cameraTargetPosition := target,
                        cameraCurrentPosition := current,
                        bossHits := hits\<rparr>
           in if isFiring st \<and> now - lastFireTime st > fireRate
              then (commitBullets res [newBullet env st cam g3] st1)
                     \<lparr>lastFireTime := now, bulletId := bulletId st + 1\<rparr>
              else commitBullets res [] st1))"

subsection \<open>Events and runs\<close>

datatype event =
    KeyDown string
  | KeyUp string
  | MouseDown int real real
  | MouseUp int
  | MouseMove real real
  | Wheel real
  | Frame real real

definition handle :: "'o env \<Rightarrow> event \<Rightarrow> state \<Rightarrow> state" where
  "handle env e st =
     (case e of
        KeyDown key \<Rightarrow> handleKeyDown key st
      | KeyUp key \<Rightarrow> handleKeyUp key st
      | MouseDown button clientX clientY \<Rightarrow> handleMouseDown button clientX clientY st
      | MouseUp button \<Rightarrow> handleMouseUp button st
      | MouseMove clientX clientY \<Rightarrow> handleMouseMove clientX clientY st
      | Wheel deltaY \<Rightarrow> handleWheel deltaY st
      | Frame delta now \<Rightarrow> tick env delta now st)"

text \<open>
  The dependencies of the aim-camera effect that can change (line 295; \<open>camera\<close> is the
  same object throughout).
\<close>

definition deps :: "state \<Rightarrow> bool \<times> bool \<times> real \<times> real \<times> real" where
  "deps st =
     (isAiming st, isCrouching st, originalCameraPositionY st, rotationX st, rotationY st)"

text \<open>One event: its handler, then the effect when a dependency has changed.\<close>

definition step :: "'o env \<Rightarrow> event \<Rightarrow> state \<Rightarrow> state" where
  "step env e st =
     (let st' = handle env e st
      in if deps st' \<noteq> deps st then aimCameraEffect st' else st')"

fun run :: "'o env \<Rightarrow> event list \<Rightarrow> state \<Rightarrow> state" where
  "run env [] st = st"
| "run env (e # es) st = run env es (step env e st)"

subsection \<open>Predicates and examples used in the statements below\<close>

definition pitchInRange :: "state \<Rightarrow> bool" where
  "pitchInRange st = (- pi / 2 \<le> rotationX st \<and> rotationX st \<le> pi / 2)"

definition distanceInRange :: "state \<Rightarrow> bool" where
  "distanceInRange st =
     (minCameraDistance \<le> cameraDistance st \<and> cameraDistance st \<le> maxCameraDistance)"

text \<open>
  An example scene with objects numbered by naturals: the boss is object 0, a cube of
  side 2 around \<open>(0, 0, -10)\<close>; the only wall is object 1, a cube of side 2 around
  \<open>(10, 0, 0)\<close>; neither has descendants. A ray meets a cube when its first 0.2 units do:
  \<open>clipAxis\<close> cuts the interval of ray parameters down to those inside the cube along one
  coordinate. The cubes are too far apart for one ray to meet both, so the objects met
  are listed in the order of the targets. The player's group turns about the vertical
  axis.
\<close>

definition inCube :: "vec3 \<Rightarrow> vec3 \<Rightarrow> bool" where
  "inCube c p = (\<bar>vx p - vx c\<bar> \<le> 1 \<and> \<bar>vy p - vy c\<bar> \<le> 1 \<and> \<bar>vz p - vz c\<bar> \<le> 1)"

definition clipAxis :: "real \<Rightarrow> real \<Rightarrow> real \<Rightarrow> real \<times> real \<Rightarrow> real \<times> real" where
  "clipAxis p dir c I =
     (if dir = 0 then (if \<bar>p - c\<bar> \<le> 1 then I else (1, 0))
      else (max (fst I) (min ((c - 1 - p) / dir) ((c + 1 - p) / dir)),
            min (snd I) (max ((c - 1 - p) / dir) ((c + 1 - p) / dir))))"

definition rayMeetsCube :: "vec3 \<Rightarrow> vec3 \<Rightarrow> vec3 \<Rightarrow> bool" where
  "rayMeetsCube c origin dir =
     (case clipAxis (vz origin) (vz dir) (vz c)
             (clipAxis (vy origin) (vy dir) (vy c)
                (clipAxis (vx origin) (vx dir) (vx c) (0, 0.2))) of
        (lo, hi) \<Rightarrow> lo \<le> hi)"

definition exampleCube :: "nat \<Rightarrow> vec3" where
  "exampleCube m = (if m = 0 then vec 0 0 (- 10) else vec 10 0 0)"

definition exampleEnv :: "nat env" where
  "exampleEnv =
     \<lparr>bossRef = Some 0,
      walls = [Some 1],
      onBossHit = True,
      containsPoint = (\<lambda>m p. inCube (exampleCube m) p),
      intersectObjects =
        (\<lambda>origin dir targets. filter (\<lambda>m. rayMeetsCube (exampleCube m) origin dir) targets),
      belongsTo = (\<lambda>obj m. obj = m),
      initialPosition = vec 0 0 0,
      forwardOf = (\<lambda>ry. vec (- sin ry) 0 (- cos ry)),
      cameraForward = (\<lambda>r. vec 0 0 (- 1)),
      gunWorldPosition = (\<lambda>g. Some (group_position g)),
      lookAt = (\<lambda>p t. \<lparr>ex = 0, ey = 0, ez = 0\<rparr>)\<rparr>"

definition exampleCamera :: pose where
  "exampleCamera = \<lparr>position = vec 0 5 15, rotation = \<lparr>ex = 0, ey = 0, ez = 0\<rparr>\<rparr>"

definition exampleState :: state where
  "exampleState = initialState (vec 0 0 0) exampleCamera"

text \<open>The displacement of the player's group between two of its states.\<close>

definition displacement :: "playerGroup \<Rightarrow> playerGroup \<Rightarrow> vec3" where
  "displacement g g' =
     \<lparr>vx = vx (group_position g') - vx (group_position g),
      vy = vy (group_position g') - vy (group_position g),
      vz = vz (group_position g') - vz (group_position g)\<rparr>"

text \<open>Example states, each reached from the mounted state by key presses.\<close>

definition standingGroup :: playerGroup where
  "standingGroup = \<lparr>group_position = vec 0 0 0, group_rotation_y = 0\<rparr>"

definition walkingState :: state where
  "walkingState = handleKeyDown ''w'' exampleState"

definition opposingKeysState :: state where
  "opposingKeysState = handleKeyDown ''s'' (handleKeyDown ''w'' exampleState)"

definition crouchingState :: state where
  "crouchingState = handleKeyDown ''Shift'' walkingState"

definition jumpingState :: state where
  "jumpingState = handleKeyDown '' '' exampleState"

text \<open>
  The example after a press of the right button (aiming, the camera at the player's head)
  and after a press of the left button (the mouse tracked from \<open>(0, 0)\<close>).
\<close>

definition headCamera :: pose where
  "headCamera = \<lparr>position = vec 0 0.9 0, rotation = \<lparr>ex = 0, ey = 0, ez = 0\<rparr>\<rparr>"

definition aimingState :: state where
  "aimingState = step exampleEnv (MouseDown 2 0 0) exampleState"

definition draggingState :: state where
  "draggingState = step exampleEnv (MouseDown 0 0 0) exampleState"

text \<open>The events of the aim button: the right button going down or up.\<close>

fun aimButtonEvent :: "event \<Rightarrow> bool" where
  "aimButtonEvent (MouseDown button clientX clientY) = (button = 2)"
| "aimButtonEvent (MouseUp button) = (button = 2)"
| "aimButtonEvent e = False"

text \<open>Aiming, with the pose \<open>c\<close> saved for the way back.\<close>

definition aimingWith :: "pose \<Rightarrow> state \<Rightarrow> bool" where
  "aimingWith c st = (isAiming st \<and> savedCameraState st = Some c)"





text \<open>
  The outcome of one collision test as the specification words it. Null entries of the
  collider registry are skipped. The boss's box comes first, then the walls' boxes in
  registration order, then the short ray against the same colliders: its first
  intersection hits the boss when the object met is the boss's mesh or a descendant of it,
  a wall when it is a wall's mesh or a descendant of one. \<open>OtherHit\<close> is a first
  intersection on an object of neither.
\<close>

datatype hit = Miss | BossHit | WallHit | OtherHit

definition presentWalls :: "'o env \<Rightarrow> 'o list" where
  "presentWalls env = List.map_filter (\<lambda>r. r) (walls env)"

definition collisionResult :: "'o env \<Rightarrow> vec3 \<Rightarrow> vec3 \<Rightarrow> hit" where
  "collisionResult env p dir =
     (if (case bossRef env of Some m \<Rightarrow> containsPoint env m p | None \<Rightarrow> False) then BossHit
      else if list_ex (\<lambda>m. containsPoint env m p) (presentWalls env) then WallHit
      else (case intersectObjects env p dir
                   (presentWalls env @ (case bossRef env of Some m \<Rightarrow> [m] | None \<Rightarrow> [])) of
              [] \<Rightarrow> Miss
            | obj # _ \<Rightarrow>
                if (case bossRef env of Some m \<Rightarrow> belongsTo env obj m | None \<Rightarrow> False)
                then BossHit
                else if list_ex (belongsTo env obj) (presentWalls env) then WallHit
                else OtherHit))"

text \<open>The bullet of lines 526 to 535: moved along its direction, its lifespan shortened.\<close>

definition advance :: "real \<Rightarrow> bullet \<Rightarrow> bullet" where
  "advance delta b =
     b\<lparr>bullet_position :=
         add (bullet_position b) (multiplyScalar (direction b) (velocity b * delta)),
       lifespan := lifespan b - delta\<rparr>"

text \<open>
  The first of the two tests of a tick that hits: the test at the bullet's position, then,
  when that one misses, the test at the advanced position.
\<close>

definition bulletFate :: "'o env \<Rightarrow> real \<Rightarrow> bullet \<Rightarrow> hit" where
  "bulletFate env delta b =
     (case collisionResult env (bullet_position b) (direction b) of
        Miss \<Rightarrow> collisionResult env (bullet_position (advance delta b)) (direction b)
      | h \<Rightarrow> h)"

text \<open>
  The bullets an update keeps (no test hit, lifespan left), advanced, and the number of
  bullets of a list whose tick ends in a hit on the boss.
\<close>

definition survivors :: "'o env \<Rightarrow> real \<Rightarrow> bullet list \<Rightarrow> bullet list" where
  "survivors env delta prev =
     map (advance delta)
       (filter (\<lambda>b. bulletFate env delta b = Miss \<and> lifespan b - delta > 0) prev)"

definition bossHitCount :: "'o env \<Rightarrow> real \<Rightarrow> bullet list \<Rightarrow> nat" where
  "bossHitCount env delta prev = length (filter (\<lambda>b. bulletFate env delta b = BossHit) prev)"

text \<open>
  The live bullets carry different identities, all of them handed out already: this holds
  after mounting and every event keeps it.
\<close>

definition idsFresh :: "state \<Rightarrow> bool" where
  "idsFresh st =
     (distinct (map bullet_id (bullets st)) \<and> list_all (\<lambda>b. bullet_id b < bulletId st) (bullets st))"

text \<open>
  The example scene without the \<open>onBossHit\<close> callback, and with a wall ref that is not
  mounted; five bullets for a frame of a sixtieth of a second: one inside the boss's box,
  one that enters it when advanced, one whose short ray reaches it, one inside the wall's
  box, one in free space; and a state that holds them.
\<close>

definition silentEnv :: "nat env" where
  "silentEnv = exampleEnv\<lparr>onBossHit := False\<rparr>"

definition nullWallEnv :: "nat env" where
  "nullWallEnv = exampleEnv\<lparr>walls := [None, Some 1]\<rparr>"

definition bossBullet :: bullet where
  "bossBullet = \<lparr>bullet_id = 0, bullet_position = vec 0 0 (- 10), direction = vec 0 0 (- 1),
     velocity = 20, lifespan = 1.5\<rparr>"

definition nearBullet :: bullet where
  "nearBullet = \<lparr>bullet_id = 1, bullet_position = vec 0 0 (- 8.75), direction = vec 0 0 (- 1),
     velocity = 20, lifespan = 1\<rparr>"

definition rayBullet :: bullet where
  "rayBullet = \<lparr>bullet_id = 2, bullet_position = vec 0 0 (- 8.9), direction = vec 0 0 (- 1),
     velocity = 20, lifespan = 1\<rparr>"

definition wallBullet :: bullet where
  "wallBullet = \<lparr>bullet_id = 3, bullet_position = vec 10 0 0, direction = vec 1 0 0,
     velocity = 20, lifespan = 1\<rparr>"

definition freeBullet :: bullet where
  "freeBullet = \<lparr>bullet_id = 4, bullet_position = vec 0 0 0, direction = vec 0 0 (- 1),
     velocity = 20, lifespan = 1.5\<rparr>"

definition shootingState :: state where
  "shootingState =
     exampleState\<lparr>bullets := [bossBullet, nearBullet, rayBullet, wallBullet, freeBullet],
       bulletId := 5\<rparr>"

section \<open>Properties\<close>

subsection \<open>Fields an event leaves alone\<close>

lemma clamp_bounds:
  "lo \<le> hi \<Longrightarrow> lo \<le> max lo (min hi (x::real)) \<and> max lo (min hi x) \<le> hi"
  by auto

lemma rotationX_applyIf:
  "(\<And>u. rotationX (f u) = rotationX u) \<Longrightarrow> rotationX (applyIf c f st) = rotationX st"
  by (simp add: applyIf_def)

lemma rotationX_handleKeyDown: "rotationX (handleKeyDown key st) = rotationX st"
  by (simp add: handleKeyDown_def Let_def rotationX_applyIf setKeys_def setCameraDistance_def)

lemma rotationX_handleKeyUp: "rotationX (handleKeyUp key st) = rotationX st"
  by (simp add: handleKeyUp_def Let_def rotationX_applyIf setKeys_def)

lemma rotationX_handleMouseDown:
  "rotationX (handleMouseDown button x y st) = rotationX st"
  by (simp add: handleMouseDown_def Let_def)

lemma rotationX_handleMouseUp: "rotationX (handleMouseUp button st) = rotationX st"
  by (simp add: handleMouseUp_def Let_def)

lemma rotationX_handleWheel: "rotationX (handleWheel deltaY st) = rotationX st"
  by (simp add: handleWheel_def Let_def setCameraDistance_def)

lemma rotationX_tick: "rotationX (tick env delta now st) = rotationX st"
  unfolding tick_def commitBullets_def
  by (auto simp add: Let_def split: option.splits prod.splits sum.splits)

lemma rotationX_aimCameraEffect: "rotationX (aimCameraEffect st) = rotationX st"
  by (simp add: aimCameraEffect_def Let_def split: option.splits)

subsection \<open>The pitch stays in range\<close>

lemma pitch_handleMouseMove:
  "pitchInRange st \<Longrightarrow> pitchInRange (handleMouseMove x y st)"
proof -
  have "- pi / 2 \<le> pi / 2"
    using pi_ge_zero by simp
  from clamp_bounds [OF this]
  show "pitchInRange st \<Longrightarrow> pitchInRange (handleMouseMove x y st)"
    by (simp add: handleMouseMove_def pitchInRange_def Let_def
          del: max.bounded_iff min.bounded_iff)
qed

lemma pitch_handle: "pitchInRange st \<Longrightarrow> pitchInRange (handle env e st)"
proof (cases e)
  case (MouseMove x y)
  then show "pitchInRange st \<Longrightarrow> pitchInRange (handle env e st)"
    by (simp add: handle_def pitch_handleMouseMove)
qed (simp_all add: handle_def pitchInRange_def rotationX_handleKeyDown
       rotationX_handleKeyUp rotationX_handleMouseDown rotationX_handleMouseUp
       rotationX_handleWheel rotationX_tick)

lemma pitch_step: "pitchInRange st \<Longrightarrow> pitchInRange (step env e st)"
  using pitch_handle [of st env e]
  by (simp add: step_def Let_def pitchInRange_def rotationX_aimCameraEffect)

lemma pitch_run: "pitchInRange st \<Longrightarrow> pitchInRange (run env es st)"
  by (induction es arbitrary: st) (simp_all add: pitch_step)

lemma pitch_initial: "pitchInRange (initialState p cam)"
  using pi_ge_zero by (simp add: pitchInRange_def initialState_def)

text \<open>
  C6. From the state after mounting, after any sequence of events (key, mouse button,
  mouse move, wheel and frame events alike) the pitch angle \<open>rotationX\<close> lies between
  \<open>-\<pi>/2\<close> and \<open>\<pi>/2\<close>.
\<close>

theorem pitch_always_in_range:
  "- pi / 2 \<le> rotationX (run env es (initialState p cam)) \<and>
   rotationX (run env es (initialState p cam)) \<le> pi / 2"
  using pitch_run [OF pitch_initial, of env es p cam] by (simp add: pitchInRange_def)

subsection \<open>The walk step\<close>

lemma tick_player:
  "player st = Some g \<Longrightarrow>
   player (tick env delta now st) =
     Some ((fst (jumpStep env st (moveStep env st g)))\<lparr>group_rotation_y := rotationY st\<rparr>)"
  unfolding tick_def commitBullets_def
  by (auto simp add: Let_def split: prod.splits sum.splits)

lemma tick_jump:
  "player st = Some g \<Longrightarrow>
   isJumping (tick env delta now st) = fst (snd (jumpStep env st (moveStep env st g))) \<and>
   jumpVelocity (tick env delta now st) = snd (snd (jumpStep env st (moveStep env st g)))"
  unfolding tick_def commitBullets_def
  by (auto simp add: Let_def split: prod.splits sum.splits)

lemma vlength_sq: "vlength v * vlength v = vx v * vx v + vy v * vy v + vz v * vz v"
proof -
  have "0 \<le> vx v * vx v + vy v * vy v + vz v * vz v" by (simp add: add_nonneg_nonneg)
  then show ?thesis by (simp add: vlength_def)
qed

lemma normalize_unit: "vlength v = 1 \<Longrightarrow> normalize v = v"
  by (simp add: normalize_def multiplyScalar_def)

lemma right_of_horizontal_unit:
  assumes "vy f = 0" and "vlength f = 1"
  shows "normalize (crossVectors (vec 0 1 0) f) = vec (vz f) 0 (- vx f)"
proof -
  have sq: "vx f * vx f + vz f * vz f = 1"
    using vlength_sq [of f] assms by simp
  have c: "crossVectors (vec 0 1 0) f = vec (vz f) 0 (- vx f)"
    by (simp add: crossVectors_def vec_def)
  have "vlength (vec (vz f) 0 (- vx f)) = 1"
    using sq by (simp add: vlength_def vec_def add.commute)
  then show ?thesis by (simp add: c normalize_unit)
qed

lemma moveStep_position:
  "group_position (moveStep env st g) =
     (let forward = getPlayerForward env (initRotation st g);
          right = normalize (crossVectors (vec 0 1 0) forward)
      in add (group_position g)
           (add (multiplyScalar forward
                   (speed st * (of_bool (w (keys st)) - of_bool (s (keys st)))))
                (multiplyScalar right
                   (speed st * (of_bool (d (keys st)) - of_bool (a (keys st)))))))"
proof -
  have "group_position (initRotation st g) = group_position g"
    by (simp add: initRotation_def)
  then show ?thesis
    by (simp add: moveStep_def Let_def add_def multiplyScalar_def algebra_simps)
qed

lemma jumpStep_xz:
  "vx (group_position (fst (jumpStep env st g))) = vx (group_position g) \<and>
   vz (group_position (fst (jumpStep env st g))) = vz (group_position g)"
  by (simp add: jumpStep_def Let_def)

lemma moveStep_height:
  assumes "vy (forwardOf env (group_rotation_y (initRotation st g))) = 0"
  shows "vy (group_position (moveStep env st g)) = vy (group_position g)"
  using assms
  by (simp add: moveStep_position Let_def getPlayerForward_def normalize_def add_def
        multiplyScalar_def crossVectors_def vec_def)

lemma speed_values: "speed st = (if isCrouching st then 0.05 else 0.1)"
  by (simp add: speed_def normalSpeed_def crouchSpeedMultiplier_def)

lemma axis_algebra:
  fixes dx dz fx fz A B :: real
  assumes "dx = fx * A + fz * B" and "dz = fz * A - fx * B" and "fx * fx + fz * fz = 1"
  shows "dx * fx + dz * fz = A \<and> dx * fz - dz * fx = B"
proof -
  have "dx * fx + dz * fz = (fx * fx + fz * fz) * A"
    by (simp add: assms(1,2) algebra_simps)
  moreover have "dx * fz - dz * fx = (fx * fx + fz * fz) * B"
    by (simp add: assms(1,2) algebra_simps)
  ultimately show ?thesis by (simp add: assms(3))
qed

text \<open>
  C10, as amended. Take a tick with the group present and a forward vector \<open>f\<close> that is
  horizontal and of length one. The displacement of the group along \<open>f\<close> is the speed
  times (W held) minus (S held), each counted 1 or 0, and along the side axis
  \<open>(f\<^sub>z, 0, -f\<^sub>x)\<close> the speed times (D held) minus (A held): one key of a pair held alone
  moves the player by exactly the speed along its axis, both keys of a pair cancel. The
  group after the tick is the same for every delta time and clock value.
\<close>

theorem walk_displacement:
  assumes "player st = Some g"
    and "f = forwardOf env (group_rotation_y (initRotation st g))"
    and "vy f = 0" and "vlength f = 1"
  shows "\<exists>g'. player (tick env delta now st) = Some g' \<and>
           dot (displacement g g') f =
             speed st * (of_bool (w (keys st)) - of_bool (s (keys st))) \<and>
           dot (displacement g g') (vec (vz f) 0 (- vx f)) =
             speed st * (of_bool (d (keys st)) - of_bool (a (keys st))) \<and>
           (\<forall>delta' now'. player (tick env delta' now' st) = Some g')"
proof -
  let ?g' = "(fst (jumpStep env st (moveStep env st g)))\<lparr>group_rotation_y := rotationY st\<rparr>"
  have sq: "vx f * vx f + vz f * vz f = 1"
    using vlength_sq [of f] assms(3,4) by simp
  have fwd: "getPlayerForward env (initRotation st g) = f"
    using assms(2,4) by (simp add: getPlayerForward_def normalize_unit)
  have pos: "group_position (moveStep env st g) =
      add (group_position g)
        (add (multiplyScalar f (speed st * (of_bool (w (keys st)) - of_bool (s (keys st)))))
           (multiplyScalar (vec (vz f) 0 (- vx f))
              (speed st * (of_bool (d (keys st)) - of_bool (a (keys st))))))"
    unfolding moveStep_position Let_def fwd
    using right_of_horizontal_unit [OF assms(3,4)] by simp
  have x: "vx (group_position ?g') - vx (group_position g) =
      vx f * (speed st * (of_bool (w (keys st)) - of_bool (s (keys st)))) +
      vz f * (speed st * (of_bool (d (keys st)) - of_bool (a (keys st))))"
    using jumpStep_xz [of env st "moveStep env st g"]
    by (simp add: pos add_def multiplyScalar_def vec_def)
  have z: "vz (group_position ?g') - vz (group_position g) =
      vz f * (speed st * (of_bool (w (keys st)) - of_bool (s (keys st)))) -
      vx f * (speed st * (of_bool (d (keys st)) - of_bool (a (keys st))))"
    using jumpStep_xz [of env st "moveStep env st g"]
    by (simp add: pos add_def multiplyScalar_def vec_def)
  have d: "dot (displacement g ?g') f =
             speed st * (of_bool (w (keys st)) - of_bool (s (keys st))) \<and>
           dot (displacement g ?g') (vec (vz f) 0 (- vx f)) =
             speed st * (of_bool (d (keys st)) - of_bool (a (keys st)))"
    using axis_algebra [OF x z sq] assms(3)
    by (simp add: dot_def displacement_def vec_def)
  show ?thesis
    using tick_player [OF assms(1)] d by blast
qed


lemma walkingState_fields:
  "player walkingState = Some standingGroup" "keys walkingState = \<lparr>w = True, a = False, s = False, d = False, space = False, shift = False\<rparr>"
  "isCrouching walkingState = False" "isJumping walkingState = False" "rotationY walkingState = 0"
  "initialRotationSet walkingState = False"
  by (simp_all add: walkingState_def handleKeyDown_def Let_def applyIf_def setKeys_def
        setCameraDistance_def exampleState_def initialState_def standingGroup_def)

lemma opposingKeysState_fields:
  "player opposingKeysState = Some standingGroup" "keys opposingKeysState = \<lparr>w = True, a = False, s = True, d = False, space = False, shift = False\<rparr>"
  "isCrouching opposingKeysState = False" "isJumping opposingKeysState = False" "rotationY opposingKeysState = 0"
  "initialRotationSet opposingKeysState = False"
  by (simp_all add: opposingKeysState_def handleKeyDown_def Let_def applyIf_def setKeys_def
        setCameraDistance_def exampleState_def initialState_def standingGroup_def)

lemma example_forward: "forwardOf exampleEnv 0 = vec 0 0 (- 1)"
  by (simp add: exampleEnv_def)

lemma vlength_example_forward: "vlength (vec 0 0 (- 1)) = 1"
  by (simp add: vlength_def vec_def)

text \<open>The theorem at \<open>walkingState\<close>: W alone held, the player facing \<open>-z\<close>.\<close>

theorem walk_displacement_witness:
  "player walkingState = Some standingGroup \<and>
   vy (vec 0 0 (- 1)) = 0 \<and> vlength (vec 0 0 (- 1)) = 1 \<and>
   (\<exists>g'. player (tick exampleEnv 1 0 walkingState) = Some g' \<and>
      dot (displacement standingGroup g') (vec 0 0 (- 1)) = speed walkingState \<and>
      dot (displacement standingGroup g') (vec (- 1) 0 0) = 0 \<and>
      player (tick exampleEnv (1 / 60) 5 walkingState) = Some g')"
proof -
  have f: "vec 0 0 (- 1) =
      forwardOf exampleEnv (group_rotation_y (initRotation walkingState standingGroup))"
    by (simp add: initRotation_def walkingState_fields example_forward)
  have y: "vy (vec 0 0 (- 1)) = 0" by (simp add: vec_def)
  from walk_displacement [OF walkingState_fields(1) f y vlength_example_forward, of 1 0]
  obtain g' where g': "player (tick exampleEnv 1 0 walkingState) = Some g'"
      "dot (displacement standingGroup g') (vec 0 0 (- 1)) =
       speed walkingState * (of_bool (w (keys walkingState)) - of_bool (s (keys walkingState)))"
      "dot (displacement standingGroup g') (vec (vz (vec 0 0 (- 1))) 0 (- vx (vec 0 0 (- 1)))) =
       speed walkingState * (of_bool (d (keys walkingState)) - of_bool (a (keys walkingState)))"
      "\<forall>delta' now'. player (tick exampleEnv delta' now' walkingState) = Some g'"
    by blast
  have "dot (displacement standingGroup g') (vec 0 0 (- 1)) = speed walkingState"
    using g'(2) by (simp add: walkingState_fields)
  moreover have "dot (displacement standingGroup g') (vec (- 1) 0 0) = 0"
    using g'(3) by (simp add: walkingState_fields vec_def)
  ultimately show ?thesis
    using g'(1,4) walkingState_fields(1) y vlength_example_forward by blast
qed

text \<open>
  With W and S both held the group does not move, although W is held and the speed is
  \<open>0.1\<close>: the claim as stated fails there.
\<close>

theorem walk_displacement_counterexample:
  "w (keys opposingKeysState) \<and>
   speed opposingKeysState = 0.1 \<and>
   player opposingKeysState = Some standingGroup \<and>
   player (tick exampleEnv 1 0 opposingKeysState) = Some standingGroup \<and>
   \<bar>dot (displacement standingGroup standingGroup) (vec 0 0 (- 1))\<bar> \<noteq>
     speed opposingKeysState"
proof -
  have "moveStep exampleEnv opposingKeysState standingGroup = standingGroup"
    by (simp add: moveStep_def Let_def initRotation_def opposingKeysState_fields
          standingGroup_def getPlayerForward_def example_forward add_def multiplyScalar_def
          vec_def normalize_def vlength_def crossVectors_def)
  then have "player (tick exampleEnv 1 0 opposingKeysState) = Some standingGroup"
    by (simp add: tick_player [OF opposingKeysState_fields(1)] jumpStep_def
          opposingKeysState_fields standingGroup_def)
  then show ?thesis
    by (simp add: opposingKeysState_fields speed_values dot_def displacement_def)
qed


subsection \<open>The speed\<close>

text \<open>
  C9. On every tick with the group present, the group moves in the horizontal plane by
  the tick's speed along the forward vector for W (against it for S) and along the side
  vector for D (against it for A), where the speed is
  \<open>normalSpeed * crouchSpeedMultiplier\<close> when the player is crouched and \<open>normalSpeed\<close>
  otherwise. The crouched speed is strictly below \<open>normalSpeed\<close>, as would be
  \<open>normalSpeed * m\<close> for any multiplier \<open>m < 1\<close>.
\<close>

theorem crouch_speed:
  assumes "player st = Some g"
  shows "\<exists>g'. player (tick env delta now st) = Some g' \<and>
     vx (group_position g') =
       vx (group_position g) +
       (vx (getPlayerForward env (initRotation st g)) *
          ((if isCrouching st then normalSpeed * crouchSpeedMultiplier else normalSpeed) *
           (of_bool (w (keys st)) - of_bool (s (keys st)))) +
        vx (normalize (crossVectors (vec 0 1 0) (getPlayerForward env (initRotation st g)))) *
          ((if isCrouching st then normalSpeed * crouchSpeedMultiplier else normalSpeed) *
           (of_bool (d (keys st)) - of_bool (a (keys st))))) \<and>
     vz (group_position g') =
       vz (group_position g) +
       (vz (getPlayerForward env (initRotation st g)) *
          ((if isCrouching st then normalSpeed * crouchSpeedMultiplier else normalSpeed) *
           (of_bool (w (keys st)) - of_bool (s (keys st)))) +
        vz (normalize (crossVectors (vec 0 1 0) (getPlayerForward env (initRotation st g)))) *
          ((if isCrouching st then normalSpeed * crouchSpeedMultiplier else normalSpeed) *
           (of_bool (d (keys st)) - of_bool (a (keys st))))) \<and>
     normalSpeed * crouchSpeedMultiplier < normalSpeed \<and>
     (\<forall>m. m < 1 \<longrightarrow> normalSpeed * m < normalSpeed)"
proof -
  let ?g' = "(fst (jumpStep env st (moveStep env st g)))\<lparr>group_rotation_y := rotationY st\<rparr>"
  have v: "speed st = (if isCrouching st then normalSpeed * crouchSpeedMultiplier else normalSpeed)"
    by (simp add: speed_def)
  have lt: "normalSpeed * crouchSpeedMultiplier < normalSpeed"
    by (simp add: normalSpeed_def crouchSpeedMultiplier_def)
  have any: "\<forall>m. m < 1 \<longrightarrow> normalSpeed * m < normalSpeed"
    by (simp add: normalSpeed_def)
  have x: "vx (group_position ?g') = vx (group_position (moveStep env st g))"
    and z: "vz (group_position ?g') = vz (group_position (moveStep env st g))"
    using jumpStep_xz [of env st "moveStep env st g"] by simp_all
  have "player (tick env delta now st) = Some ?g'"
    by (rule tick_player [OF assms])
  moreover have "vx (group_position ?g') =
       vx (group_position g) +
       (vx (getPlayerForward env (initRotation st g)) *
          (speed st * (of_bool (w (keys st)) - of_bool (s (keys st)))) +
        vx (normalize (crossVectors (vec 0 1 0) (getPlayerForward env (initRotation st g)))) *
          (speed st * (of_bool (d (keys st)) - of_bool (a (keys st)))))"
    unfolding x moveStep_position Let_def by (simp add: add_def multiplyScalar_def)
  moreover have "vz (group_position ?g') =
       vz (group_position g) +
       (vz (getPlayerForward env (initRotation st g)) *
          (speed st * (of_bool (w (keys st)) - of_bool (s (keys st)))) +
        vz (normalize (crossVectors (vec 0 1 0) (getPlayerForward env (initRotation st g)))) *
          (speed st * (of_bool (d (keys st)) - of_bool (a (keys st)))))"
    unfolding z moveStep_position Let_def by (simp add: add_def multiplyScalar_def)
  ultimately show ?thesis
    unfolding v using lt any by blast
qed

text \<open>
  The theorem at \<open>crouchingState\<close> (W and Shift held, the player facing \<open>-z\<close>): the tick
  moves the player by 0.05 along \<open>-z\<close>, half of what it does standing; and the multiplier
  \<open>1/4\<close>.
\<close>

theorem crouch_speed_witness:
  "player crouchingState = Some standingGroup \<and> isCrouching crouchingState \<and>
   (\<exists>g'. player (tick exampleEnv (1 / 60) 0 crouchingState) = Some g' \<and>
      vx (group_position g') = 0 \<and> vz (group_position g') = - 0.05) \<and>
   (1 / 4 :: real) < 1 \<and> normalSpeed * (1 / 4) < normalSpeed"
proof -
  have c: "isCrouching crouchingState" "keys crouchingState =
      \<lparr>w = True, a = False, s = False, d = False, space = False, shift = True\<rparr>"
    "initialRotationSet crouchingState = False" "rotationY crouchingState = 0"
    "player crouchingState = Some standingGroup"
    by (simp_all add: crouchingState_def walkingState_def handleKeyDown_def Let_def applyIf_def
          setKeys_def setCameraDistance_def exampleState_def initialState_def standingGroup_def)
  have f: "getPlayerForward exampleEnv (initRotation crouchingState standingGroup) = vec 0 0 (- 1)"
    by (simp add: getPlayerForward_def initRotation_def c example_forward normalize_unit
          vlength_example_forward)
  have p: "group_position standingGroup = vec 0 0 0"
    by (simp add: standingGroup_def)
  from crouch_speed [OF c(5), of exampleEnv "1 / 60" 0]
  obtain g' where g': "player (tick exampleEnv (1 / 60) 0 crouchingState) = Some g'"
    "vx (group_position g') = 0 + (0 * (normalSpeed * crouchSpeedMultiplier * 1) +
       vx (normalize (crossVectors (vec 0 1 0) (vec 0 0 (- 1)))) * 0)"
    "vz (group_position g') = 0 + (- 1 * (normalSpeed * crouchSpeedMultiplier * 1) +
       vz (normalize (crossVectors (vec 0 1 0) (vec 0 0 (- 1)))) * 0)"
    and all: "\<forall>m. m < 1 \<longrightarrow> normalSpeed * m < normalSpeed"
    unfolding f p by (auto simp add: c vec_def)
  have "vx (group_position g') = 0" "vz (group_position g') = - 0.05"
    using g'(2,3) by (simp_all add: normalSpeed_def crouchSpeedMultiplier_def)
  moreover have "(1 / 4 :: real) < 1"
    by simp
  moreover from all this have "normalSpeed * (1 / 4) < normalSpeed"
    by blast
  ultimately show ?thesis
    using g'(1) c(1,5) by blast
qed

subsection \<open>The jump\<close>

text \<open>
  C3, as amended. On a tick with the group present and \<open>isJumping\<close> set, the height
  after the walk step (the height before the tick when the forward vector is horizontal)
  grows by the vertical velocity of before the tick, and the velocity decreases by
  \<open>gravity\<close>; neither is scaled by the tick's delta time. When the new height is at or
  below the ground level \<open>initialPosition.y\<close>, the height is set to the ground level, the
  velocity to zero and \<open>isJumping\<close> is cleared.
\<close>

theorem jump_integration:
  assumes "player st = Some g" and "isJumping st"
  shows "\<exists>g'. player (tick env delta now st) = Some g' \<and>
     (if vy (group_position (moveStep env st g)) + jumpVelocity st \<le> vy (initialPosition env)
      then vy (group_position g') = vy (initialPosition env) \<and>
           jumpVelocity (tick env delta now st) = 0 \<and>
           \<not> isJumping (tick env delta now st)
      else vy (group_position g') = vy (group_position (moveStep env st g)) + jumpVelocity st \<and>
           jumpVelocity (tick env delta now st) = jumpVelocity st - gravity \<and>
           isJumping (tick env delta now st)) \<and>
     (vy (forwardOf env (group_rotation_y (initRotation st g))) = 0 \<longrightarrow>
        vy (group_position (moveStep env st g)) = vy (group_position g))"
  using tick_player [OF assms(1), of env delta now] tick_jump [OF assms(1), of env delta now]
    assms(2) moveStep_height [of env st g]
  by (simp add: jumpStep_def Let_def)

lemma jumpingState_fields:
  "player jumpingState = Some standingGroup" "isJumping jumpingState"
  "jumpVelocity jumpingState = 0.3"
  "keys jumpingState = \<lparr>w = False, a = False, s = False, d = False, space = True, shift = False\<rparr>"
  "initialRotationSet jumpingState = False" "rotationY jumpingState = 0"
  by (simp_all add: jumpingState_def handleKeyDown_def Let_def applyIf_def setKeys_def
        setCameraDistance_def exampleState_def initialState_def standingGroup_def jumpForce_def)

lemma moveStep_jumpingState: "moveStep exampleEnv jumpingState standingGroup = standingGroup"
  by (simp add: moveStep_def Let_def initRotation_def jumpingState_fields standingGroup_def)

lemma example_ground: "vy (initialPosition exampleEnv) = 0"
  by (simp add: exampleEnv_def vec_def)

text \<open>The theorem on the first tick after the jump key.\<close>

theorem jump_integration_witness:
  "player jumpingState = Some standingGroup \<and> isJumping jumpingState \<and>
   (\<exists>g'. player (tick exampleEnv (1 / 60) 0 jumpingState) = Some g' \<and>
      vy (group_position g') = 0.3 \<and>
      jumpVelocity (tick exampleEnv (1 / 60) 0 jumpingState) = 0.285 \<and>
      isJumping (tick exampleEnv (1 / 60) 0 jumpingState))"
proof -
  have y: "vy (group_position standingGroup) = 0"
    by (simp add: standingGroup_def vec_def)
  from jump_integration [OF jumpingState_fields(1,2), of exampleEnv "1 / 60" 0]
  have "\<exists>g'. player (tick exampleEnv (1 / 60) 0 jumpingState) = Some g' \<and>
      vy (group_position g') = 0.3 \<and>
      jumpVelocity (tick exampleEnv (1 / 60) 0 jumpingState) = 0.3 - gravity \<and>
      isJumping (tick exampleEnv (1 / 60) 0 jumpingState)"
    by (simp add: moveStep_jumpingState jumpingState_fields(3) y example_ground)
  then show ?thesis
    using jumpingState_fields(1,2) by (simp add: gravity_def)
qed

text \<open>
  On that tick with a delta time of \<open>1/2\<close> the velocity drops by the whole of \<open>gravity\<close>
  and the height grows by the whole velocity, not by half of them.
\<close>

theorem jump_integration_counterexample:
  "isJumping jumpingState \<and>
   player jumpingState = Some standingGroup \<and>
   jumpVelocity (tick exampleEnv (1 / 2) 0 jumpingState) \<noteq>
     jumpVelocity jumpingState - gravity * (1 / 2) \<and>
   player (tick exampleEnv (1 / 2) 0 jumpingState) =
     Some \<lparr>group_position = vec 0 0.3 0, group_rotation_y = 0\<rparr> \<and>
   (0.3 :: real) \<noteq> vy (group_position standingGroup) + jumpVelocity jumpingState * (1 / 2) \<and>
   (0.3 :: real) \<noteq> vy (group_position standingGroup) +
     (jumpVelocity jumpingState - gravity * (1 / 2)) * (1 / 2)"
proof -
  have "player (tick exampleEnv (1 / 2) 0 jumpingState) =
      Some \<lparr>group_position = vec 0 0.3 0, group_rotation_y = 0\<rparr>"
    by (simp add: tick_player [OF jumpingState_fields(1)] moveStep_jumpingState jumpStep_def
          jumpingState_fields example_ground)
       (simp add: standingGroup_def vec_def)
  moreover have "jumpVelocity (tick exampleEnv (1 / 2) 0 jumpingState) = 0.285"
  proof -
    have "vy (group_position standingGroup) = 0"
      by (simp add: standingGroup_def vec_def)
    then have "snd (snd (jumpStep exampleEnv jumpingState standingGroup)) = 0.3 - gravity"
      by (simp add: jumpStep_def Let_def jumpingState_fields example_ground)
    then show ?thesis
      using tick_jump [OF jumpingState_fields(1), of exampleEnv "1 / 2" 0]
      by (simp add: moveStep_jumpingState gravity_def)
  qed
  ultimately show ?thesis
    by (simp add: jumpingState_fields standingGroup_def vec_def gravity_def)
qed

subsection \<open>The aim button\<close>

lemma applyIf_preserve: "(\<And>u. sel (f u) = sel u) \<Longrightarrow> sel (applyIf c f st) = sel st"
  by (simp add: applyIf_def)

lemmas applyIf_fields =
  applyIf_preserve [where sel = isAiming] applyIf_preserve [where sel = savedCameraState]
  applyIf_preserve [where sel = camera]

lemma aim_handleKeyDown:
  "isAiming (handleKeyDown key st) = isAiming st"
  "savedCameraState (handleKeyDown key st) = savedCameraState st"
  "camera (handleKeyDown key st) = camera st"
  by (simp_all add: handleKeyDown_def Let_def applyIf_fields setKeys_def setCameraDistance_def)

lemma aim_handleKeyUp:
  "isAiming (handleKeyUp key st) = isAiming st"
  "savedCameraState (handleKeyUp key st) = savedCameraState st"
  by (simp_all add: handleKeyUp_def Let_def applyIf_fields setKeys_def)

lemma aim_handleMouseMove:
  "isAiming (handleMouseMove x y st) = isAiming st"
  "savedCameraState (handleMouseMove x y st) = savedCameraState st"
  by (simp_all add: handleMouseMove_def Let_def)

lemma aim_handleWheel:
  "isAiming (handleWheel dy st) = isAiming st"
  "savedCameraState (handleWheel dy st) = savedCameraState st"
  by (simp_all add: handleWheel_def Let_def setCameraDistance_def)

lemma aim_tick:
  "isAiming (tick env delta now st) = isAiming st"
  "savedCameraState (tick env delta now st) = savedCameraState st"
  unfolding tick_def commitBullets_def
  by (auto simp add: Let_def split: option.splits prod.splits sum.splits)

lemma aim_handle:
  "\<not> aimButtonEvent e \<Longrightarrow>
   isAiming (handle env e st) = isAiming st \<and>
   savedCameraState (handle env e st) = savedCameraState st"
  by (cases e)
     (simp_all add: handle_def aim_handleKeyDown aim_handleKeyUp aim_handleMouseMove
        aim_handleWheel aim_tick handleMouseDown_def handleMouseUp_def Let_def)

lemma aim_effect:
  "isAiming st \<Longrightarrow>
   isAiming (aimCameraEffect st) \<and> savedCameraState (aimCameraEffect st) = savedCameraState st"
  by (simp add: aimCameraEffect_def Let_def split: option.splits)

lemma aimingWith_step:
  "aimingWith c st \<Longrightarrow> \<not> aimButtonEvent e \<Longrightarrow> aimingWith c (step env e st)"
  using aim_handle [of e env st] aim_effect [of "handle env e st"]
  by (simp add: aimingWith_def step_def Let_def)

lemma aimingWith_run:
  "aimingWith c st \<Longrightarrow> \<forall>e\<in>set es. \<not> aimButtonEvent e \<Longrightarrow> aimingWith c (run env es st)"
  by (induction es arbitrary: st) (simp_all add: aimingWith_step)

lemma aim_down: "aimingWith (camera st) (step env (MouseDown 2 x y) st)"
  using aim_effect [of "handleMouseDown 2 x y st"]
  by (simp add: step_def handle_def Let_def aimingWith_def handleMouseDown_def)

lemma aim_up:
  "aimingWith c st \<Longrightarrow>
   camera (step env (MouseUp 2) st) = c \<and> savedCameraState (step env (MouseUp 2) st) = None
   \<and> \<not> isAiming (step env (MouseUp 2) st)"
  by (simp add: step_def handle_def Let_def aimingWith_def handleMouseUp_def deps_def
        aimCameraEffect_def)

text \<open>
  C5. From any state, press the aim button, let any events happen that are not events of
  the aim button (frames, keys, wheel; mouse moves too), release the aim button: the
  camera's position and rotation are exactly those of before the press, and the saved pose
  is cleared.
\<close>

theorem aim_toggle_restores_camera:
  assumes "\<forall>e\<in>set es. \<not> aimButtonEvent e"
  shows "camera (step env (MouseUp 2) (run env es (step env (MouseDown 2 x y) st))) = camera st \<and>
         savedCameraState (step env (MouseUp 2) (run env es (step env (MouseDown 2 x y) st))) = None"
proof -
  have "aimingWith (camera st) (step env (MouseDown 2 x y) st)"
    by (rule aim_down)
  then have "aimingWith (camera st) (run env es (step env (MouseDown 2 x y) st))"
    using assms by (rule aimingWith_run)
  from aim_up [OF this, of env] show ?thesis
    by simp
qed


lemma exampleState_fields:
  "isAiming exampleState = False" "camera exampleState = exampleCamera"
  "player exampleState = Some standingGroup" "savedCameraState exampleState = None"
  "isMouseDown exampleState = False" "cameraDistance exampleState = 5"
  "rotationX exampleState = 0" "rotationY exampleState = 0" "isCrouching exampleState = False"
  "originalCameraPositionY exampleState = 0"
  by (simp_all add: exampleState_def initialState_def standingGroup_def)

lemma aimingState_eq:
  "aimingState = exampleState\<lparr>savedCameraState := Some exampleCamera, isAiming := True,
     camera := headCamera\<rparr>"
  by (simp add: aimingState_def step_def handle_def handleMouseDown_def Let_def deps_def
        exampleState_fields aimCameraEffect_def standingGroup_def add_def vec_def headCamera_def)

lemma aimingState_fields:
  "isAiming aimingState" "savedCameraState aimingState = Some exampleCamera"
  "camera aimingState = headCamera" "cameraDistance aimingState = 5"
  by (simp_all add: aimingState_eq exampleState_fields)

text \<open>
  The theorem at the example: the press moves the camera to the player's head, a frame and
  a key press follow, the release brings the camera back.
\<close>

theorem aim_toggle_restores_camera_witness:
  "\<not> aimButtonEvent (Frame (1 / 60) 16) \<and> \<not> aimButtonEvent (KeyDown ''w'') \<and>
   camera (step exampleEnv (MouseDown 2 0 0) exampleState) = headCamera \<and>
   camera (step exampleEnv (MouseUp 2)
     (run exampleEnv [Frame (1 / 60) 16, KeyDown ''w'']
       (step exampleEnv (MouseDown 2 0 0) exampleState))) = exampleCamera \<and>
   savedCameraState (step exampleEnv (MouseUp 2)
     (run exampleEnv [Frame (1 / 60) 16, KeyDown ''w'']
       (step exampleEnv (MouseDown 2 0 0) exampleState))) = None"
proof -
  have "\<forall>e\<in>set [Frame (1 / 60) 16, KeyDown ''w'']. \<not> aimButtonEvent e"
    by simp
  from aim_toggle_restores_camera [OF this, of exampleEnv 0 0 exampleState]
  show ?thesis
    using aimingState_fields(3) by (simp add: exampleState_fields aimingState_def)
qed

text \<open>
  C4, as amended. In a state that is already aiming, a further press of the aim button
  leaves the camera mode, the camera's pose and every other field as they are, and
  replaces the saved pose by the camera's current pose.
\<close>

theorem repeated_aim_down:
  assumes "isAiming st"
  shows "step env (MouseDown 2 x y) st = st\<lparr>savedCameraState := Some (camera st)\<rparr>"
proof -
  have "handleMouseDown 2 x y st = st\<lparr>savedCameraState := Some (camera st)\<rparr>"
    using assms by (cases st) (simp add: handleMouseDown_def)
  then show ?thesis
    by (simp add: step_def handle_def Let_def deps_def)
qed

text \<open>The theorem at \<open>aimingState\<close>.\<close>

theorem repeated_aim_down_witness:
  "isAiming aimingState \<and>
   step exampleEnv (MouseDown 2 0 0) aimingState =
     aimingState\<lparr>savedCameraState := Some headCamera\<rparr>"
  using repeated_aim_down [OF aimingState_fields(1), of exampleEnv 0 0]
  by (simp add: aimingState_fields)

text \<open>
  In \<open>aimingState\<close> the saved pose is the third-person pose of before the press; the
  second press replaces it by the first-person pose at the player's head.
\<close>

theorem repeated_aim_down_counterexample:
  "isAiming aimingState \<and>
   savedCameraState aimingState = Some exampleCamera \<and>
   savedCameraState (step exampleEnv (MouseDown 2 0 0) aimingState) = Some headCamera \<and>
   headCamera \<noteq> exampleCamera"
proof -
  have "savedCameraState (handleMouseDown 2 0 0 aimingState) = Some headCamera"
    "deps (handleMouseDown 2 0 0 aimingState) = deps aimingState"
    by (simp_all add: handleMouseDown_def deps_def aimingState_fields)
  then have "savedCameraState (step exampleEnv (MouseDown 2 0 0) aimingState) = Some headCamera"
    by (simp add: step_def handle_def Let_def)
  moreover have "headCamera \<noteq> exampleCamera"
    by (simp add: headCamera_def exampleCamera_def vec_def)
  ultimately show ?thesis
    by (simp add: aimingState_fields)
qed

subsection \<open>The camera distance while aiming\<close>

text \<open>
  What holds of the camera distance: from the mounted state it stays within
  \<open>[minCameraDistance, maxCameraDistance]\<close> whatever the events, and the wheel leaves it
  alone while aiming.
\<close>

lemma distance_applyIf:
  "distanceInRange st \<Longrightarrow> (\<And>u. distanceInRange u \<Longrightarrow> distanceInRange (f u)) \<Longrightarrow>
   distanceInRange (applyIf c f st)"
  by (simp add: applyIf_def)

lemma distance_setKeys: "distanceInRange (setKeys f st) = distanceInRange st"
  by (simp add: distanceInRange_def setKeys_def)

lemma distance_handleKeyDown:
  assumes "distanceInRange st"
  shows "distanceInRange (handleKeyDown key st)"
  unfolding handleKeyDown_def Let_def
  by (intro distance_applyIf assms)
     (simp_all add: distanceInRange_def setKeys_def setCameraDistance_def
        minCameraDistance_def maxCameraDistance_def)

lemma distance_handleKeyUp:
  assumes "distanceInRange st"
  shows "distanceInRange (handleKeyUp key st)"
  unfolding handleKeyUp_def Let_def
  by (intro distance_applyIf assms)
     (simp_all add: distanceInRange_def setKeys_def)

lemma distance_handleWheel: "distanceInRange st \<Longrightarrow> distanceInRange (handleWheel deltaY st)"
  by (simp add: handleWheel_def Let_def distanceInRange_def setCameraDistance_def
        minCameraDistance_def maxCameraDistance_def)

lemma cameraDistance_tick: "cameraDistance (tick env delta now st) = cameraDistance st"
  unfolding tick_def commitBullets_def
  by (auto simp add: Let_def split: option.splits prod.splits sum.splits)

lemma cameraDistance_aimCameraEffect: "cameraDistance (aimCameraEffect st) = cameraDistance st"
  by (simp add: aimCameraEffect_def Let_def split: option.splits)

lemma distance_handle: "distanceInRange st \<Longrightarrow> distanceInRange (handle env e st)"
  by (cases e)
     (simp_all add: handle_def distance_handleKeyDown distance_handleKeyUp distance_handleWheel,
      simp_all add: distanceInRange_def handleMouseDown_def handleMouseUp_def
        handleMouseMove_def Let_def cameraDistance_tick)

lemma distance_step: "distanceInRange st \<Longrightarrow> distanceInRange (step env e st)"
  using distance_handle [of st env e]
  by (simp add: step_def Let_def distanceInRange_def cameraDistance_aimCameraEffect)

lemma distance_run: "distanceInRange st \<Longrightarrow> distanceInRange (run env es st)"
  by (induction es arbitrary: st) (simp_all add: distance_step)

lemma camera_distance_always_in_range:
  "minCameraDistance \<le> cameraDistance (run env es (initialState p cam)) \<and>
   cameraDistance (run env es (initialState p cam)) \<le> maxCameraDistance"
proof -
  have "distanceInRange (initialState p cam)"
    by (simp add: distanceInRange_def initialState_def minCameraDistance_def
          maxCameraDistance_def)
  from distance_run [OF this, of env es] show ?thesis
    by (simp add: distanceInRange_def)
qed

lemma wheel_while_aiming:
  "isAiming st \<Longrightarrow> cameraDistance (step env (Wheel deltaY) st) = cameraDistance st"
  by (simp add: step_def handle_def handleWheel_def Let_def)

text \<open>
  C7, at the failing input. While aiming, the wheel leaves the camera distance at 5, but
  the key \<open>-\<close> moves it to 5.5 and the key \<open>+\<close> to 4.5: the key handler lacks the
  \<open>!isAiming\<close> guard of the wheel handler.
\<close>

theorem aim_key_changes_distance:
  "isAiming aimingState \<and>
   cameraDistance aimingState = 5 \<and>
   cameraDistance (step exampleEnv (KeyDown ''-'') aimingState) = 5.5 \<and>
   cameraDistance (step exampleEnv (KeyDown ''+'') aimingState) = 4.5 \<and>
   cameraDistance (step exampleEnv (Wheel 100) aimingState) = 5"
proof -
  have k: "cameraDistance (handleKeyDown ''-'' aimingState) = 5.5"
      "cameraDistance (handleKeyDown ''+'' aimingState) = 4.5"
    by (simp_all add: handleKeyDown_def Let_def applyIf_def setCameraDistance_def
          aimingState_fields maxCameraDistance_def minCameraDistance_def)
  have e: "cameraDistance (aimCameraEffect u) = cameraDistance u" for u
    by (simp add: aimCameraEffect_def Let_def split: option.splits)
  have w: "handleWheel 100 aimingState = aimingState"
    by (simp add: handleWheel_def aimingState_fields)
  show ?thesis
    using k w by (simp add: step_def handle_def Let_def e aimingState_fields)
qed

subsection \<open>Mouse moves\<close>

text \<open>
  C8, as amended. A mouse-move event is applied whatever its size: while the left button
  is down the yaw decreases by 0.01 times the horizontal delta and the pitch by 0.01 times
  the vertical delta, clamped to \<open>[-\<pi>/2, \<pi>/2]\<close>; while it is up neither changes. No
  delta is discarded.
\<close>

theorem mouse_move_always_applied:
  "rotationY (step env (MouseMove x y) st) =
     (if isMouseDown st then rotationY st - (x - mouseX st) * 0.01 else rotationY st) \<and>
   rotationX (step env (MouseMove x y) st) =
     (if isMouseDown st
      then max (- pi / 2) (min (pi / 2) (rotationX st - (y - mouseY st) * 0.01))
      else rotationX st)"
proof -
  have e: "rotationY (aimCameraEffect u) = rotationY u" for u
    by (simp add: aimCameraEffect_def Let_def split: option.splits)
  show ?thesis
    by (simp add: step_def handle_def Let_def e rotationX_aimCameraEffect handleMouseMove_def)
qed

lemma draggingState_fields:
  "isMouseDown draggingState" "mouseX draggingState = 0" "mouseY draggingState = 0"
  "rotationY draggingState = 0" "rotationX draggingState = 0"
  by (simp_all add: draggingState_def step_def handle_def handleMouseDown_def Let_def deps_def
        exampleState_def initialState_def)

text \<open>A jump of a million pixels in one event turns the player by ten thousand radians.\<close>

theorem mouse_move_always_applied_counterexample:
  "isMouseDown draggingState \<and>
   rotationY draggingState = 0 \<and>
   rotationY (step exampleEnv (MouseMove 1000000 0) draggingState) = - 10000"
proof -
  have "rotationY (handleMouseMove 1000000 0 draggingState) = - 10000"
    by (simp add: handleMouseMove_def Let_def draggingState_fields)
  moreover have "rotationY (aimCameraEffect u) = rotationY u" for u
    by (simp add: aimCameraEffect_def Let_def split: option.splits)
  ultimately show ?thesis
    by (simp add: step_def handle_def Let_def draggingState_fields)
qed

subsection \<open>The fire rate\<close>

lemma tick_fire:
  "player st \<noteq> None \<Longrightarrow>
   bulletId (tick env delta now st) =
     (if isFiring st \<and> now - lastFireTime st > fireRate then bulletId st + 1 else bulletId st) \<and>
   lastFireTime (tick env delta now st) =
     (if isFiring st \<and> now - lastFireTime st > fireRate then now else lastFireTime st)"
  unfolding tick_def commitBullets_def
  by (auto simp add: Let_def split: prod.splits sum.splits)












lemma tick_bullets_commit:
  assumes "player st = Some g" and "fst (updateBullets env delta (bullets st) (bossHits st)) = Inr bs"
  shows "\<exists>g'. player (tick env delta now st) = Some g' \<and>
           bullets (tick env delta now st) =
             bs @ (if isFiring st \<and> now - lastFireTime st > fireRate
                   then [newBullet env st (camera (tick env delta now st)) g'] else [])"
  using assms unfolding tick_def commitBullets_def
  by (auto simp add: Let_def split: prod.splits sum.splits)

lemma tick_bullets_error:
  assumes "player st = Some g" and "fst (updateBullets env delta (bullets st) (bossHits st)) = Inl e"
  shows "bullets (tick env delta now st) = bullets st \<and>
         renderError (tick env delta now st) = Some e"
  using assms unfolding tick_def commitBullets_def
  by (auto simp add: Let_def split: prod.splits sum.splits)










subsection \<open>Bullets and the boss\<close>

lemma wallContains_present:
  "wallContains env ws p =
     list_ex (\<lambda>m. containsPoint env m p) (List.map_filter (\<lambda>r. r) ws)"
proof (induction ws)
  case Nil
  then show ?case by (simp add: map_filter_simps)
next
  case (Cons r ws)
  then show ?case by (cases r) (simp_all add: map_filter_simps)
qed

lemma no_null_entries:
  "None \<notin> set ws \<Longrightarrow>
   \<not> list_ex (\<lambda>r. r = None) ws \<and> map the ws = List.map_filter (\<lambda>r. r) ws"
proof (induction ws)
  case Nil
  then show ?case by (simp add: map_filter_simps)
next
  case (Cons r ws)
  then show ?case by (cases r) (simp_all add: map_filter_simps)
qed

lemma checkBulletCollision_result:
  assumes "None \<notin> set (walls env)"
    and "\<And>obj m. bossRef env = Some m \<Longrightarrow> belongsTo env obj m = (obj = m)"
  shows "checkBulletCollision env b n =
     (Inr (collisionResult env (bullet_position b) (direction b) \<noteq> Miss),
      if collisionResult env (bullet_position b) (direction b) = BossHit
      then notifyBossHit env n else n)"
proof (cases "bossRef env")
  case None
  then show ?thesis
    using no_null_entries [OF assms(1)]
    by (simp add: checkBulletCollision_def collisionResult_def wallContains_present
          presentWalls_def Let_def split: list.splits)
next
  case (Some m)
  then show ?thesis
    using no_null_entries [OF assms(1)] assms(2) [OF Some]
    by (auto simp add: checkBulletCollision_def collisionResult_def wallContains_present
          presentWalls_def Let_def split: list.splits)
qed

lemma advance_fields:
  "direction (advance delta b) = direction b" "bullet_id (advance delta b) = bullet_id b"
  by (simp_all add: advance_def)

lemma updateBullet_fate:
  assumes "None \<notin> set (walls env)"
    and "\<And>obj m. bossRef env = Some m \<Longrightarrow> belongsTo env obj m = (obj = m)"
  shows "updateBullet env delta b n =
     (Inr (if bulletFate env delta b = Miss then Some (advance delta b) else None),
      if bulletFate env delta b = BossHit then notifyBossHit env n else n)"
proof -
  have u: "b\<lparr>bullet_position :=
              add (bullet_position b) (multiplyScalar (direction b) (velocity b * delta)),
            lifespan := lifespan b - delta\<rparr> = advance delta b"
    by (simp add: advance_def)
  note c = checkBulletCollision_result [OF assms]
  show ?thesis
    by (simp add: updateBullet_def c [of b] Let_def u c [of "advance delta b"] bulletFate_def
          advance_fields split: hit.splits bool.splits)
qed

lemma mapBullets_fate:
  assumes "None \<notin> set (walls env)"
    and "\<And>obj m. bossRef env = Some m \<Longrightarrow> belongsTo env obj m = (obj = m)"
  shows "mapBullets env delta bs n =
     (Inr (map (\<lambda>b. if bulletFate env delta b = Miss then Some (advance delta b) else None) bs),
      if onBossHit env then n + bossHitCount env delta bs else n)"
proof (induction bs arbitrary: n)
  case Nil
  then show ?case by (simp add: bossHitCount_def)
next
  case (Cons b bs)
  show ?case
    by (simp add: updateBullet_fate [OF assms] Cons.IH bossHitCount_def notifyBossHit_def)
qed

lemma live_survivors:
  "map the (filter live
     (map (\<lambda>b. if bulletFate env delta b = Miss then Some (advance delta b) else None) bs)) =
   survivors env delta bs"
  by (induction bs) (simp_all add: survivors_def live_def advance_def)

lemma updateBullets_fate:
  assumes "None \<notin> set (walls env)"
    and "\<And>obj m. bossRef env = Some m \<Longrightarrow> belongsTo env obj m = (obj = m)"
  shows "updateBullets env delta prev n =
     (Inr (survivors env delta prev),
      if onBossHit env then n + bossHitCount env delta prev else n)"
  by (simp add: updateBullets_def mapBullets_fate [OF assms] live_survivors)

lemma tick_bossHits:
  "player st \<noteq> None \<Longrightarrow>
   bossHits (tick env delta now st) = snd (updateBullets env delta (bullets st) (bossHits st))"
  unfolding tick_def commitBullets_def
  by (auto simp add: Let_def split: prod.splits sum.splits)

lemma survivors_ids:
  "map bullet_id (survivors env delta prev) =
   map bullet_id (filter (\<lambda>b. bulletFate env delta b = Miss \<and> lifespan b - delta > 0) prev)"
  by (simp add: survivors_def advance_fields comp_def)

lemma removed_id_gone:
  assumes "distinct (map bullet_id prev)" and "b \<in> set prev" and "bulletFate env delta b \<noteq> Miss"
  shows "bullet_id b \<notin> set (map bullet_id (survivors env delta prev))"
proof
  assume "bullet_id b \<in> set (map bullet_id (survivors env delta prev))"
  then obtain b' where b': "b' \<in> set prev" "bulletFate env delta b' = Miss"
      "bullet_id b' = bullet_id b"
    unfolding survivors_ids by auto
  from assms(1) have "inj_on bullet_id (set prev)"
    by (simp add: distinct_map)
  with b'(1,3) assms(2) have "b' = b"
    by (auto dest: inj_onD)
  with b'(2) assms(3) show False
    by simp
qed

text \<open>
  C1, as amended. Let the \<open>onBossHit\<close> callback be supplied, every registered wall ref be
  mounted, and the boss be a single mesh (the only object a ray can meet in it). For every
  live bullet of a tick: when the first of its two collision tests that hits (at the
  position before advancing, else at the position after) hits the boss, the callback is
  called exactly once for it and the bullet is dropped; when it hits a wall, the bullet is
  dropped and the callback is not called; otherwise the advanced bullet is kept and the
  callback is not called. Over a tick with the group present the number of calls grows by
  the number of bullets that hit the boss; the live bullets after the tick are exactly the
  advanced bullets that hit nothing and have lifespan left, followed by the bullet spawned
  in that tick, if any; and, the identities of the live bullets being different and
  handed out already, the identity of a bullet that hit something is no longer among the
  live ones.
\<close>

theorem boss_hit_notified_once:
  assumes "onBossHit env"
    and "None \<notin> set (walls env)"
    and "\<And>obj m. bossRef env = Some m \<Longrightarrow> belongsTo env obj m = (obj = m)"
    and "player st \<noteq> None"
  shows "updateBullet env delta b n =
           (case bulletFate env delta b of
              BossHit \<Rightarrow> (Inr None, Suc n)
            | WallHit \<Rightarrow> (Inr None, n)
            | OtherHit \<Rightarrow> (Inr None, n)
            | Miss \<Rightarrow> (Inr (Some (advance delta b)), n)) \<and>
         bossHits (tick env delta now st) = bossHits st + bossHitCount env delta (bullets st) \<and>
         (\<exists>g'. player (tick env delta now st) = Some g' \<and>
            bullets (tick env delta now st) =
              survivors env delta (bullets st) @
              (if isFiring st \<and> now - lastFireTime st > fireRate
               then [newBullet env st (camera (tick env delta now st)) g'] else [])) \<and>
         (idsFresh st \<longrightarrow>
            (\<forall>c\<in>set (bullets st). bulletFate env delta c \<noteq> Miss \<longrightarrow>
               bullet_id c \<notin> bullet_id ` set (bullets (tick env delta now st))))"
proof -
  note u = updateBullets_fate [OF assms(2,3)]
  obtain g where g: "player st = Some g"
    using assms(4) by blast
  have one: "updateBullet env delta b n =
           (case bulletFate env delta b of
              BossHit \<Rightarrow> (Inr None, Suc n)
            | WallHit \<Rightarrow> (Inr None, n)
            | OtherHit \<Rightarrow> (Inr None, n)
            | Miss \<Rightarrow> (Inr (Some (advance delta b)), n))"
    using assms(1)
    by (simp add: updateBullet_fate [OF assms(2,3)] notifyBossHit_def split: hit.splits)
  have calls: "bossHits (tick env delta now st) =
      bossHits st + bossHitCount env delta (bullets st)"
    using assms(1) by (simp add: tick_bossHits [OF assms(4)] u)
  have "fst (updateBullets env delta (bullets st) (bossHits st)) =
      Inr (survivors env delta (bullets st))"
    by (simp add: u)
  from tick_bullets_commit [OF g this, of now]
  obtain g' where g': "player (tick env delta now st) = Some g'"
    "bullets (tick env delta now st) =
       survivors env delta (bullets st) @
       (if isFiring st \<and> now - lastFireTime st > fireRate
        then [newBullet env st (camera (tick env delta now st)) g'] else [])"
    by blast
  have gone: "bullet_id c \<notin> bullet_id ` set (bullets (tick env delta now st))"
    if f: "idsFresh st" and c: "c \<in> set (bullets st)" "bulletFate env delta c \<noteq> Miss" for c
  proof -
    have "bullet_id c \<notin> set (map bullet_id (survivors env delta (bullets st)))"
      using f c by (intro removed_id_gone) (simp_all add: idsFresh_def)
    moreover have "bullet_id c < bulletId st"
      using f c(1) by (simp add: idsFresh_def list_all_iff)
    ultimately show ?thesis
      by (auto simp add: g'(2) newBullet_def Let_def)
  qed
  show ?thesis
    using one calls g' gone by blast
qed

lemma exampleEnv_fields:
  "bossRef exampleEnv = Some 0" "walls exampleEnv = [Some 1]" "presentWalls exampleEnv = [1]"
  "containsPoint exampleEnv m p = inCube (exampleCube m) p"
  "intersectObjects exampleEnv origin dir targets =
     filter (\<lambda>m. rayMeetsCube (exampleCube m) origin dir) targets"
  "belongsTo exampleEnv obj m = (obj = m)" "onBossHit exampleEnv"
  by (simp_all add: exampleEnv_def presentWalls_def map_filter_simps)

lemma example_scene:
  "onBossHit exampleEnv" "None \<notin> set (walls exampleEnv)"
  "bossRef exampleEnv = Some m \<Longrightarrow> belongsTo exampleEnv obj m = (obj = m)"
  by (simp_all add: exampleEnv_fields)

lemma example_cubes: "exampleCube 0 = vec 0 0 (- 10)" "exampleCube (Suc 0) = vec 10 0 0"
  by (simp_all add: exampleCube_def)

lemma example_collisionResult:
  "collisionResult exampleEnv p dir =
     (if inCube (vec 0 0 (- 10)) p then BossHit
      else if inCube (vec 10 0 0) p then WallHit
      else if rayMeetsCube (vec 10 0 0) p dir then WallHit
      else if rayMeetsCube (vec 0 0 (- 10)) p dir then BossHit
      else Miss)"
  by (simp add: collisionResult_def exampleEnv_fields example_cubes)

lemma example_positions:
  "bullet_position bossBullet = vec 0 0 (- 10)"
  "bullet_position nearBullet = vec 0 0 (- (35 / 4))" "direction nearBullet = vec 0 0 (- 1)"
  "bullet_position (advance (1 / 60) nearBullet) = vec 0 0 (- (109 / 12))"
  "bullet_position rayBullet = vec 0 0 (- (89 / 10))" "direction rayBullet = vec 0 0 (- 1)"
  "bullet_position wallBullet = vec 10 0 0"
  "bullet_position freeBullet = vec 0 0 0" "direction freeBullet = vec 0 0 (- 1)"
  "bullet_position (advance (1 / 60) freeBullet) = vec 0 0 (- (1 / 3))"
  by (simp_all add: bossBullet_def nearBullet_def rayBullet_def wallBullet_def freeBullet_def
        advance_def add_def multiplyScalar_def vec_def)

lemma example_boxes:
  "inCube (vec 0 0 (- 10)) (vec 0 0 (- 10))"
  "\<not> inCube (vec 0 0 (- 10)) (vec 0 0 (- (35 / 4)))" "\<not> inCube (vec 10 0 0) (vec 0 0 (- (35 / 4)))"
  "inCube (vec 0 0 (- 10)) (vec 0 0 (- (109 / 12)))"
  "\<not> inCube (vec 0 0 (- 10)) (vec 0 0 (- (89 / 10)))" "\<not> inCube (vec 10 0 0) (vec 0 0 (- (89 / 10)))"
  "\<not> inCube (vec 0 0 (- 10)) (vec 10 0 0)" "inCube (vec 10 0 0) (vec 10 0 0)"
  "\<not> inCube (vec 0 0 (- 10)) (vec 0 0 0)" "\<not> inCube (vec 10 0 0) (vec 0 0 0)"
  "\<not> inCube (vec 0 0 (- 10)) (vec 0 0 (- (1 / 3)))" "\<not> inCube (vec 10 0 0) (vec 0 0 (- (1 / 3)))"
  by (simp_all add: inCube_def vec_def)

lemma example_rays:
  "\<not> rayMeetsCube (vec 0 0 (- 10)) (vec 0 0 (- (35 / 4))) (vec 0 0 (- 1))"
  "\<not> rayMeetsCube (vec 10 0 0) (vec 0 0 (- (35 / 4))) (vec 0 0 (- 1))"
  "rayMeetsCube (vec 0 0 (- 10)) (vec 0 0 (- (89 / 10))) (vec 0 0 (- 1))"
  "\<not> rayMeetsCube (vec 10 0 0) (vec 0 0 (- (89 / 10))) (vec 0 0 (- 1))"
  "\<not> rayMeetsCube (vec 0 0 (- 10)) (vec 0 0 0) (vec 0 0 (- 1))"
  "\<not> rayMeetsCube (vec 10 0 0) (vec 0 0 0) (vec 0 0 (- 1))"
  "\<not> rayMeetsCube (vec 0 0 (- 10)) (vec 0 0 (- (1 / 3))) (vec 0 0 (- 1))"
  "\<not> rayMeetsCube (vec 10 0 0) (vec 0 0 (- (1 / 3))) (vec 0 0 (- 1))"
  by (simp_all add: rayMeetsCube_def clipAxis_def vec_def)

lemma example_first_tests:
  "collisionResult exampleEnv (bullet_position nearBullet) (direction nearBullet) = Miss"
  "\<not> containsPoint exampleEnv 0 (bullet_position rayBullet)"
  "collisionResult exampleEnv (bullet_position rayBullet) (direction rayBullet) = BossHit"
  by (simp_all add: example_collisionResult example_positions example_boxes example_rays
        exampleEnv_fields example_cubes)

lemma example_fates:
  "bulletFate exampleEnv (1 / 60) bossBullet = BossHit"
  "bulletFate exampleEnv (1 / 60) nearBullet = BossHit"
  "bulletFate exampleEnv (1 / 60) rayBullet = BossHit"
  "bulletFate exampleEnv (1 / 60) wallBullet = WallHit"
  "bulletFate exampleEnv (1 / 60) freeBullet = Miss"
  by (simp_all add: bulletFate_def example_collisionResult example_positions example_boxes
        example_rays)

lemma shootingState_fields:
  "player shootingState \<noteq> None" "bossHits shootingState = 0" "\<not> isFiring shootingState"
  "bullets shootingState = [bossBullet, nearBullet, rayBullet, wallBullet, freeBullet]"
  "idsFresh shootingState"
  by (simp_all add: shootingState_def exampleState_def initialState_def idsFresh_def
        bossBullet_def nearBullet_def rayBullet_def wallBullet_def freeBullet_def)

text \<open>
  The theorem on the five example bullets: the one inside the boss, the one that enters it
  when advanced and the one whose ray reaches it each cause one call, the one inside the
  wall none; after the tick only the bullet in free space is live.
\<close>

theorem boss_hit_notified_once_witness:
  "onBossHit exampleEnv \<and> None \<notin> set (walls exampleEnv) \<and>
   player shootingState \<noteq> None \<and> idsFresh shootingState \<and>
   collisionResult exampleEnv (bullet_position nearBullet) (direction nearBullet) = Miss \<and>
   \<not> containsPoint exampleEnv 0 (bullet_position rayBullet) \<and>
   updateBullet exampleEnv (1 / 60) bossBullet 0 = (Inr None, 1) \<and>
   updateBullet exampleEnv (1 / 60) nearBullet 0 = (Inr None, 1) \<and>
   updateBullet exampleEnv (1 / 60) rayBullet 0 = (Inr None, 1) \<and>
   updateBullet exampleEnv (1 / 60) wallBullet 0 = (Inr None, 0) \<and>
   updateBullet exampleEnv (1 / 60) freeBullet 0 = (Inr (Some (advance (1 / 60) freeBullet)), 0) \<and>
   bossHits (tick exampleEnv (1 / 60) 0 shootingState) = 3 \<and>
   bullets (tick exampleEnv (1 / 60) 0 shootingState) = [advance (1 / 60) freeBullet] \<and>
   bullet_id bossBullet \<notin> bullet_id ` set (bullets (tick exampleEnv (1 / 60) 0 shootingState)) \<and>
   bullet_id wallBullet \<notin> bullet_id ` set (bullets (tick exampleEnv (1 / 60) 0 shootingState))"
proof -
  have c: "bossHitCount exampleEnv (1 / 60)
      [bossBullet, nearBullet, rayBullet, wallBullet, freeBullet] = 3"
    by (simp add: bossHitCount_def example_fates)
  have s: "survivors exampleEnv (1 / 60)
      [bossBullet, nearBullet, rayBullet, wallBullet, freeBullet] = [advance (1 / 60) freeBullet]"
    by (simp add: survivors_def example_fates) (simp add: freeBullet_def)
  note t = boss_hit_notified_once [OF example_scene shootingState_fields(1),
      of "1 / 60" _ 0 0]
  have one: "updateBullet exampleEnv (1 / 60) bossBullet 0 = (Inr None, 1)"
    "updateBullet exampleEnv (1 / 60) nearBullet 0 = (Inr None, 1)"
    "updateBullet exampleEnv (1 / 60) rayBullet 0 = (Inr None, 1)"
    "updateBullet exampleEnv (1 / 60) wallBullet 0 = (Inr None, 0)"
    "updateBullet exampleEnv (1 / 60) freeBullet 0 = (Inr (Some (advance (1 / 60) freeBullet)), 0)"
    using t [of bossBullet] t [of nearBullet] t [of rayBullet] t [of wallBullet]
      t [of freeBullet]
    by (simp_all add: example_fates)
  from t [of bossBullet]
  have tickfacts: "bossHits (tick exampleEnv (1 / 60) 0 shootingState) = 3"
    "bullets (tick exampleEnv (1 / 60) 0 shootingState) = [advance (1 / 60) freeBullet]"
    "\<forall>c\<in>set (bullets shootingState). bulletFate exampleEnv (1 / 60) c \<noteq> Miss \<longrightarrow>
       bullet_id c \<notin> bullet_id ` set (bullets (tick exampleEnv (1 / 60) 0 shootingState))"
    by (auto simp add: shootingState_fields c s)
  have "bullet_id bossBullet \<notin>
      bullet_id ` set (bullets (tick exampleEnv (1 / 60) 0 shootingState))"
    "bullet_id wallBullet \<notin>
      bullet_id ` set (bullets (tick exampleEnv (1 / 60) 0 shootingState))"
    using tickfacts(3) by (simp_all add: shootingState_fields(4) example_fates)
  then show ?thesis
    using one tickfacts(1,2) example_scene(1,2) shootingState_fields(1,5) example_first_tests
    by blast
qed

text \<open>
  Without the callback a bullet inside the boss's box is dropped and nothing is notified.
\<close>

theorem boss_hit_notified_once_counterexample:
  "bossRef silentEnv = Some 0 \<and>
   containsPoint silentEnv 0 (bullet_position bossBullet) \<and>
   bulletFate silentEnv (1 / 60) bossBullet = BossHit \<and>
   updateBullet silentEnv (1 / 60) bossBullet 0 = (Inr None, 0)"
proof -
  have c: "bossRef silentEnv = Some 0" "containsPoint silentEnv 0 (bullet_position bossBullet)"
    "\<not> onBossHit silentEnv"
    by (simp_all add: silentEnv_def exampleEnv_fields example_cubes example_positions
          example_boxes)
  have "bulletFate silentEnv (1 / 60) bossBullet = BossHit"
    by (simp add: bulletFate_def collisionResult_def c)
  moreover have "checkBulletCollision silentEnv bossBullet 0 = (Inr True, 0)"
    by (simp add: checkBulletCollision_def notifyBossHit_def c)
  then have "updateBullet silentEnv (1 / 60) bossBullet 0 = (Inr None, 0)"
    by (simp add: updateBullet_def)
  ultimately show ?thesis
    using c(1,2) by blast
qed

text \<open>
  With a wall ref that is not mounted, the update of a list that holds a bullet in free
  space raises: the callback has been called for the bullet inside the boss, and the list
  of live bullets is not updated.
\<close>

lemma null_wall_raises:
  "updateBullets nullWallEnv (1 / 60) [bossBullet, freeBullet] 0 = (Inl TypeError, 1)"
proof -
  have c: "bossRef nullWallEnv = Some 0" "onBossHit nullWallEnv"
    "walls nullWallEnv = [None, Some (Suc 0)]"
    "containsPoint nullWallEnv 0 (bullet_position bossBullet)"
    "\<not> containsPoint nullWallEnv 0 (bullet_position freeBullet)"
    "\<not> containsPoint nullWallEnv (Suc 0) (bullet_position freeBullet)"
    by (simp_all add: nullWallEnv_def exampleEnv_fields example_cubes example_positions
          example_boxes)
  have "checkBulletCollision nullWallEnv bossBullet 0 = (Inr True, 1)"
    by (simp add: checkBulletCollision_def notifyBossHit_def c)
  moreover have "checkBulletCollision nullWallEnv freeBullet 1 = (Inl TypeError, 1)"
    by (simp add: checkBulletCollision_def c)
  ultimately show ?thesis
    by (simp add: updateBullets_def updateBullet_def)
qed


text \<open>
  The condition on identities holds in every state the component can reach.
\<close>

lemma updateBullet_shape:
  "updateBullet env delta b n = (Inr r, n') \<Longrightarrow> r = None \<or> r = Some (advance delta b)"
  by (auto simp add: updateBullet_def Let_def advance_def
        split: prod.splits sum.splits bool.splits)

lemma mapBullets_ids:
  "mapBullets env delta bs n = (Inr rs, n') \<Longrightarrow> distinct (map bullet_id bs) \<Longrightarrow>
   distinct (map bullet_id (map the (filter live rs))) \<and>
   set (map bullet_id (map the (filter live rs))) \<subseteq> set (map bullet_id bs)"
proof (induction bs arbitrary: n rs n')
  case Nil
  then show ?case by simp
next
  case (Cons b bs)
  from Cons.prems(1) obtain r n1 rs' where
    r: "updateBullet env delta b n = (Inr r, n1)"
    and m: "mapBullets env delta bs n1 = (Inr rs', n')" and rs: "rs = r # rs'"
    by (auto split: prod.splits sum.splits)
  from Cons.prems(2) have d: "distinct (map bullet_id bs)" "bullet_id b \<notin> set (map bullet_id bs)"
    by simp_all
  note ih = Cons.IH [OF m d(1)]
  from updateBullet_shape [OF r] show ?case
  proof
    assume "r = None"
    then show ?thesis
      using ih by (auto simp add: rs live_def)
  next
    assume "r = Some (advance delta b)"
    then show ?thesis
      using ih d(2) by (auto simp add: rs advance_fields)
  qed
qed

lemma tick_idsFresh: "idsFresh st \<Longrightarrow> idsFresh (tick env delta now st)"
proof (cases "player st")
  case None
  then show "idsFresh st \<Longrightarrow> idsFresh (tick env delta now st)"
    by (simp add: tick_def)
next
  case (Some g)
  assume f: "idsFresh st"
  have p: "player st \<noteq> None"
    using Some by simp
  note c = tick_fire [OF p, of env delta now]
  show "idsFresh (tick env delta now st)"
  proof (cases "fst (updateBullets env delta (bullets st) (bossHits st))")
    case (Inl e)
    from tick_bullets_error [OF Some Inl, of now] f c show ?thesis
      by (auto simp add: idsFresh_def list_all_iff intro: less_SucI)
  next
    case (Inr bs)
    obtain r k where m: "mapBullets env delta (bullets st) (bossHits st) = (r, k)"
      by (cases "mapBullets env delta (bullets st) (bossHits st)")
    with Inr obtain rs where r: "r = Inr rs" "bs = map the (filter live rs)"
      by (cases r) (auto simp add: updateBullets_def)
    have "distinct (map bullet_id (bullets st))"
      using f by (simp add: idsFresh_def)
    from mapBullets_ids [OF m [unfolded r(1)] this]
    have ids: "distinct (map bullet_id bs)" "set (map bullet_id bs) \<subseteq> set (map bullet_id (bullets st))"
      by (simp_all add: r(2))
    have old: "\<forall>i\<in>set (map bullet_id bs). i < bulletId st"
      using ids(2) f by (auto simp add: idsFresh_def list_all_iff)
    from tick_bullets_commit [OF Some Inr, of now]
    obtain g' where b: "bullets (tick env delta now st) =
        bs @ (if isFiring st \<and> now - lastFireTime st > fireRate
              then [newBullet env st (camera (tick env delta now st)) g'] else [])"
      by blast
    show ?thesis
    proof (cases "isFiring st \<and> now - lastFireTime st > fireRate")
      case True
      then show ?thesis
        using ids(1) old c
        by (auto simp add: idsFresh_def list_all_iff b newBullet_def Let_def intro: less_SucI)
    next
      case False
      then show ?thesis
        using ids(1) old c by (auto simp add: idsFresh_def list_all_iff b)
    qed
  qed
qed

lemmas applyIf_bullets =
  applyIf_preserve [where sel = bullets] applyIf_preserve [where sel = bulletId]

lemma bullets_handlers:
  "bullets (handleKeyDown key st) = bullets st" "bulletId (handleKeyDown key st) = bulletId st"
  "bullets (handleKeyUp key st) = bullets st" "bulletId (handleKeyUp key st) = bulletId st"
  "bullets (handleMouseDown button x y st) = bullets st"
  "bulletId (handleMouseDown button x y st) = bulletId st"
  "bullets (handleMouseUp button st) = bullets st" "bulletId (handleMouseUp button st) = bulletId st"
  "bullets (handleMouseMove x y st) = bullets st" "bulletId (handleMouseMove x y st) = bulletId st"
  "bullets (handleWheel deltaY st) = bullets st" "bulletId (handleWheel deltaY st) = bulletId st"
  "bullets (aimCameraEffect st) = bullets st" "bulletId (aimCameraEffect st) = bulletId st"
  by (simp_all add: handleKeyDown_def handleKeyUp_def handleMouseDown_def handleMouseUp_def
        handleMouseMove_def handleWheel_def aimCameraEffect_def Let_def applyIf_bullets
        setKeys_def setCameraDistance_def split: option.splits)

lemma idsFresh_step: "idsFresh st \<Longrightarrow> idsFresh (step env e st)"
proof -
  assume f: "idsFresh st"
  have "idsFresh (handle env e st)"
    using f tick_idsFresh [of st env]
    by (cases e) (simp_all add: handle_def, simp_all add: idsFresh_def bullets_handlers)
  then show ?thesis
    by (simp add: step_def Let_def idsFresh_def bullets_handlers)
qed

lemma idsFresh_run: "idsFresh (run env es (initialState p cam))"
proof -
  have "idsFresh st \<Longrightarrow> idsFresh (run env es st)" for st
    by (induction es arbitrary: st) (simp_all add: idsFresh_step)
  moreover have "idsFresh (initialState p cam)"
    by (simp add: idsFresh_def initialState_def)
  ultimately show ?thesis
    by blast
qed

end
